theory Spec2Isabelle
  imports Main "HOL-Library.AList"
begin

section \<open>The local pseudo plugin of libstoragemgmt (plugin/local_plugin/local.py)\<close>

text \<open>
  \<^verbatim>\<open>LocalPlugin\<close> is a router: it opens one \<^verbatim>\<open>lsm.Client\<close> connection per
  hardware backend, binds every storage system a connection reports to that connection,
  and forwards each request to one connection or to all of them. The backends, the URI
  parser and the operating system are outside the file; they enter the model as the
  fields of an environment record. A Python exception is a value of type \<open>exn\<close>, a
  method of the class is a function from the object and the log of backend calls made so
  far to a result and the updated pair.
\<close>

subsection \<open>Errors\<close>

text \<open>
  \<^verbatim>\<open>lsm.ErrorNumber\<close>: the four numbers the file names, and every other number a
  backend may raise.
\<close>

datatype ErrorNumber =
    PLUGIN_BUG
  | INVALID_ARGUMENT
  | NO_SUPPORT
  | NOT_FOUND_SYSTEM
  | OTHER_ERROR nat

text \<open>
  A raised exception: \<^verbatim>\<open>LsmError(code, msg)\<close>, or any other \<^verbatim>\<open>Exception\<close>, of which the
  file only uses the text \<^verbatim>\<open>"%s" % common_error\<close>.
\<close>

datatype exn =
    LsmError ErrorNumber string
  | Exception string

subsection \<open>Data\<close>

text \<open>\<^verbatim>\<open>lsm.System\<close>: the file reads \<^verbatim>\<open>sys.id\<close> only.\<close>

record system =
  sys_id :: string
  sys_attrs :: "(string \<times> string) list"

text \<open>
  A disk, pool, volume, battery, file system or export: the file reads
  \<^verbatim>\<open>.system_id\<close>; the search filter reads a property by name.
\<close>

record lsm_obj =
  obj_id :: string
  system_id :: string
  attrs :: "(string \<times> string) list"

text \<open>A value of the keyword dictionary \<^verbatim>\<open>_exec\<close> forwards.\<close>

datatype arg =
    ArgSystem system
  | ArgObj lsm_obj
  | ArgObjs "lsm_obj list"
  | ArgStr string
  | ArgInt int

type_synonym parameters = "(string \<times> arg) list"

text \<open>The positional arguments of \<^verbatim>\<open>export_fs\<close>, in the order of the source.\<close>

record export_fs_args =
  fs_id :: string
  export_path :: "string option"
  root_list :: "string list"
  rw_list :: "string list"
  ro_list :: "string list"
  anon_uid :: int
  anon_gid :: int
  auth_type :: "string option"
  options :: "string option"

text \<open>A \<^verbatim>\<open>Client\<close> object, by identity.\<close>

type_synonym conn = nat

text \<open>
  One call from the router to the outside: the constructor \<^verbatim>\<open>Client(uri, None, timeout, flags)\<close>
  or a method of a connection. The log of these calls, oldest first, is what a test double
  would record.
\<close>

datatype call =
    ClientOpen string int int
  | ConnSystems conn
  | ConnQuery conn string int
  | ConnExec conn string parameters
  | ConnPluginUnregister conn
  | ConnTimeOutSet conn int int
  | ConnExports conn "string option" "string option" int
  | ConnExportFs conn export_fs_args int
  | ConnExportRemove conn lsm_obj int
  | ConnExportAuth conn int

subsection \<open>The environment\<close>

text \<open>
  Everything the file calls and does not define. A backend may keep state, so each of its
  answers is a function of the calls made before. \<open>set_iter\<close> is the order in which
  Python iterates \<^verbatim>\<open>set(requested_plugins)\<close>, which the language leaves open.
  \<open>'r\<close> is whatever a forwarded operation returns.
\<close>

record 'r env =
  geteuid :: int
  uri_parse :: "string \<Rightarrow> exn + (string \<times> string) list option"
  listdir_sys_module :: "exn + string list"
  find_arcconf :: bool
  find_sacli :: bool
  set_iter :: "string list \<Rightarrow> string list"
  VERSION :: string
  FLAG_RSVD :: int
  Client :: "call list \<Rightarrow> string \<Rightarrow> int \<Rightarrow> int \<Rightarrow> exn + conn"
  conn_systems :: "call list \<Rightarrow> conn \<Rightarrow> exn + system list"
  conn_query :: "call list \<Rightarrow> conn \<Rightarrow> string \<Rightarrow> int \<Rightarrow> exn + lsm_obj list"
  conn_exec :: "call list \<Rightarrow> conn \<Rightarrow> string \<Rightarrow> parameters \<Rightarrow> exn + 'r"
  conn_plugin_unregister :: "call list \<Rightarrow> conn \<Rightarrow> exn + unit"
  conn_time_out_set :: "call list \<Rightarrow> conn \<Rightarrow> int \<Rightarrow> int \<Rightarrow> exn + unit"
  conn_exports :: "call list \<Rightarrow> conn \<Rightarrow> string option \<Rightarrow> string option \<Rightarrow> int \<Rightarrow> exn + 'r"
  conn_export_fs :: "call list \<Rightarrow> conn \<Rightarrow> export_fs_args \<Rightarrow> int \<Rightarrow> exn + 'r"
  conn_export_remove :: "call list \<Rightarrow> conn \<Rightarrow> lsm_obj \<Rightarrow> int \<Rightarrow> exn + 'r"
  conn_export_auth :: "call list \<Rightarrow> conn \<Rightarrow> int \<Rightarrow> exn + 'r"

subsection \<open>The object\<close>

text \<open>
  The fields of \<^verbatim>\<open>LocalPlugin\<close>. \<^verbatim>\<open>sys_con_map\<close> is a Python dictionary: an association
  list with distinct keys, written with \<open>AList.update\<close> and read with \<open>map_of\<close>.
\<close>

record LocalPlugin =
  tmo_ms :: int
  conns :: "conn list"
  syss :: "system list"
  sys_con_map :: "(string \<times> conn) list"
  unregistered :: bool
  nfs_conn :: "conn option"

type_synonym world = "LocalPlugin \<times> call list"

text \<open>\<^verbatim>\<open>__init__\<close>\<close>

definition init :: LocalPlugin where
  "init = \<lparr>tmo_ms = 3000, conns = [], syss = [], sys_con_map = [],
           unregistered = False, nfs_conn = None\<rparr>"

subsection \<open>The decorator\<close>

text \<open>
  \<^verbatim>\<open>_handle_errors\<close>: an \<^verbatim>\<open>LsmError\<close> is raised again as it is, any other exception becomes
  \<^verbatim>\<open>LsmError(PLUGIN_BUG, "Got unexpected error %s" % common_error)\<close>.
\<close>

definition handle_errors :: "(world \<Rightarrow> (exn + 'a) \<times> world) \<Rightarrow> world \<Rightarrow> (exn + 'a) \<times> world" where
  "handle_errors method w =
     (case method w of
        (Inl (Exception common_error), w') \<Rightarrow>
          (Inl (LsmError PLUGIN_BUG (''Got unexpected error '' @ common_error)), w')
      | (Inl (LsmError code msg), w') \<Rightarrow> (Inl (LsmError code msg), w')
      | (Inr v, w') \<Rightarrow> (Inr v, w'))"

subsection \<open>Collection queries\<close>

text \<open>\<^verbatim>\<open>getattr(lsm_obj, search_key)\<close> on the properties the model keeps.\<close>

definition getattr :: "lsm_obj \<Rightarrow> string \<Rightarrow> string option" where
  "getattr ob k =
     (if k = ''id'' then Some (obj_id ob)
      else if k = ''system_id'' then Some (system_id ob)
      else map_of (attrs ob) k)"

text \<open>
  Modelled from the spec: \<^verbatim>\<open>lsm.search_property\<close> is imported, its body is not in the
  repository's sources here. The spec: keep only entries whose attribute named by
  search-key equals search-value; the filter is a no-op if search-key is unset.
\<close>

definition search_property ::
  "lsm_obj list \<Rightarrow> string option \<Rightarrow> string option \<Rightarrow> lsm_obj list" where
  "search_property lsm_objs search_key search_value =
     (case search_key of
        None \<Rightarrow> lsm_objs
      | Some k \<Rightarrow>
          filter (\<lambda>ob. case getattr ob k of None \<Rightarrow> False | Some a \<Rightarrow> Some a = search_value)
            lsm_objs)"

text \<open>
  The loop of \<^verbatim>\<open>_query\<close> (lines 71 to 78): \<^verbatim>\<open>lsm_objs\<close> is the accumulator; an
  \<^verbatim>\<open>LsmError\<close> with code \<^verbatim>\<open>NO_SUPPORT\<close> is passed over, anything else raised leaves the loop.
\<close>

fun query_loop ::
  "'r env \<Rightarrow> string \<Rightarrow> int \<Rightarrow> conn list \<Rightarrow> lsm_obj list \<Rightarrow> call list
     \<Rightarrow> (exn + lsm_obj list) \<times> call list" where
  "query_loop env query_func_name flags [] lsm_objs h = (Inr lsm_objs, h)"
| "query_loop env query_func_name flags (c # cs) lsm_objs h =
     (case conn_query env h c query_func_name flags of
        Inr objs \<Rightarrow>
          query_loop env query_func_name flags cs (lsm_objs @ objs)
            (h @ [ConnQuery c query_func_name flags])
      | Inl (LsmError code msg) \<Rightarrow>
          if code = NO_SUPPORT
          then query_loop env query_func_name flags cs lsm_objs
                 (h @ [ConnQuery c query_func_name flags])
          else (Inl (LsmError code msg), h @ [ConnQuery c query_func_name flags])
      | Inl (Exception m) \<Rightarrow> (Inl (Exception m), h @ [ConnQuery c query_func_name flags]))"

text \<open>
  \<^verbatim>\<open>_query\<close>. \<^verbatim>\<open>search_value not in self.sys_con_map.keys()\<close> holds for \<^verbatim>\<open>None\<close> too, the
  keys being strings.
\<close>

definition p_query ::
  "'r env \<Rightarrow> string \<Rightarrow> string option \<Rightarrow> string option \<Rightarrow> int \<Rightarrow> world
     \<Rightarrow> (exn + lsm_obj list) \<times> world" where
  "p_query env query_func_name search_key search_value flags w =
     (case w of (self, h) \<Rightarrow>
        if search_key = Some ''system_id'' then
          (case (case search_value of None \<Rightarrow> None
                                    | Some v \<Rightarrow> map_of (sys_con_map self) v) of
             None \<Rightarrow> (Inr [], (self, h))
           | Some c \<Rightarrow>
               (conn_query env h c query_func_name flags,
                (self, h @ [ConnQuery c query_func_name flags])))
        else
          (case query_loop env query_func_name flags (conns self) [] h of
             (Inl e, h') \<Rightarrow> (Inl e, (self, h'))
           | (Inr lsm_objs, h') \<Rightarrow>
               (Inr (search_property lsm_objs search_key search_value), (self, h'))))"

subsection \<open>Operations on one system\<close>

text \<open>\<^verbatim>\<open>_exec\<close>\<close>

definition p_exec ::
  "'r env \<Rightarrow> string \<Rightarrow> string \<Rightarrow> parameters \<Rightarrow> world \<Rightarrow> (exn + 'r) \<times> world" where
  "p_exec env sid func_name params w =
     (case w of (self, h) \<Rightarrow>
        (case map_of (sys_con_map self) sid of
           None \<Rightarrow> (Inl (LsmError NOT_FOUND_SYSTEM ''System not found''), (self, h))
         | Some c \<Rightarrow>
             (conn_exec env h c func_name params, (self, h @ [ConnExec c func_name params]))))"

subsection \<open>Registration\<close>

text \<open>\<^verbatim>\<open>_KMOD_PLUGIN_MAP\<close>, in the order it is written.\<close>

definition KMOD_PLUGIN_MAP :: "(string \<times> string) list" where
  "KMOD_PLUGIN_MAP =
     [(''megaraid_sas'', ''megaraid''),
      (''hpsa'', ''hpsa''),
      (''aacraid'', ''arcconf''),
      (''nfsd'', ''nfs'')]"

text \<open>\<^verbatim>\<open>set(LocalPlugin._KMOD_PLUGIN_MAP.values())\<close>; only membership is read.\<close>

definition supported_plugins :: "string list" where
  "supported_plugins = remdups (map snd KMOD_PLUGIN_MAP)"

text \<open>\<^verbatim>\<open>d.get(k, default)\<close> on a dictionary kept as an association list.\<close>

definition dict_get :: "(string \<times> string) list \<Rightarrow> string \<Rightarrow> string \<Rightarrow> string" where
  "dict_get d k dflt = (case map_of d k of None \<Rightarrow> dflt | Some v \<Rightarrow> v)"

text \<open>\<^verbatim>\<open>bool(s)\<close> of a string: false for the empty string only.\<close>

definition py_bool :: "string \<Rightarrow> bool" where
  "py_bool s = (s \<noteq> [])"

text \<open>\<^verbatim>\<open>s.startswith(pre)\<close> and \<^verbatim>\<open>sep.join(xs)\<close>\<close>

definition startswith :: "string \<Rightarrow> string \<Rightarrow> bool" where
  "startswith s pre = (take (length pre) s = pre)"

fun join :: "string \<Rightarrow> string list \<Rightarrow> string" where
  "join sep [] = []"
| "join sep [x] = x"
| "join sep (x # y # ys) = x @ sep @ join sep (y # ys)"

text \<open>
  \<^verbatim>\<open>sub_uri_paras[plugin_name]\<close> after lines 99 to 108: for each key of \<^verbatim>\<open>uri_vars\<close> that
  starts with \<^verbatim>\<open>"%s_" % plugin_name\<close>, in the order of the keys, the text
  \<^verbatim>\<open>"%s=%s" % (key[len("%s_" % plugin_name):], uri_vars[key])\<close>.
\<close>

definition sub_uri_paras :: "(string \<times> string) list \<Rightarrow> string \<Rightarrow> string list" where
  "sub_uri_paras uri_vars plugin_name =
     map (\<lambda>(key, v). drop (length (plugin_name @ ''_'')) key @ ''='' @ v)
       (filter (\<lambda>(key, v). startswith key (plugin_name @ ''_'')) uri_vars)"

text \<open>Lines 145 to 147: the connection string of one backend.\<close>

definition plugin_uri :: "(string \<times> string) list \<Rightarrow> string \<Rightarrow> string" where
  "plugin_uri uri_vars plugin_name =
     (if sub_uri_paras uri_vars plugin_name \<noteq> []
      then plugin_name @ ''://'' @ ''?'' @ join ''&'' (sub_uri_paras uri_vars plugin_name)
      else plugin_name @ ''://'')"

text \<open>
  Lines 119 to 136: the backends asked for by the kernel modules that are loaded, before
  the list is made a set. The module \<^verbatim>\<open>smartpqi\<close> belongs to two backends and is settled
  by which command line tool is installed.
\<close>

definition probe_plugins :: "'r env \<Rightarrow> string list \<Rightarrow> string list" where
  "probe_plugins env cur_kmods =
     map snd (filter (\<lambda>(kmod_name, plugin_name). kmod_name \<in> set cur_kmods) KMOD_PLUGIN_MAP)
     @ (if ''smartpqi'' \<in> set cur_kmods then
          (if find_arcconf env then [''arcconf'']
           else if find_sacli env then [''hpsa'']
           else [''arcconf''])
        else [])"

text \<open>
  Lines 110 to 142: \<^verbatim>\<open>requested_plugins\<close>, as the list the loop of line 144 walks. The set
  of line 138 is empty exactly when the list it is made from is.
\<close>

definition select_plugins :: "'r env \<Rightarrow> (string \<times> string) list \<Rightarrow> exn + string list" where
  "select_plugins env uri_vars =
     (let only_plugin = dict_get uri_vars ''only'' [] in
      if only_plugin \<noteq> [] \<and> only_plugin \<notin> set supported_plugins then
        Inl (LsmError INVALID_ARGUMENT
               (''Plugin defined in only='' @ only_plugin @ '' is not supported''))
      else if only_plugin \<noteq> [] then Inr [only_plugin]
      else
        (case listdir_sys_module env of
           Inl e \<Rightarrow> Inl e
         | Inr cur_kmods \<Rightarrow>
             if probe_plugins env cur_kmods = []
             then Inl (LsmError NO_SUPPORT ''No supported hardware found'')
             else Inr (set_iter env (probe_plugins env cur_kmods))))"

text \<open>
  Lines 144 to 158: one \<^verbatim>\<open>Client\<close> per requested backend. Only an \<^verbatim>\<open>LsmError\<close> is caught;
  it is dropped when \<^verbatim>\<open>ignore_init_error\<close> is true and raised again otherwise.
\<close>

fun open_conns ::
  "'r env \<Rightarrow> (string \<times> string) list \<Rightarrow> bool \<Rightarrow> int \<Rightarrow> int \<Rightarrow> string list \<Rightarrow> world
     \<Rightarrow> (exn + unit) \<times> world" where
  "open_conns env uri_vars ignore_init_error timeout flags [] w = (Inr (), w)"
| "open_conns env uri_vars ignore_init_error timeout flags (plugin_name # rest) (self, h) =
     (case Client env h (plugin_uri uri_vars plugin_name) timeout flags of
        Inr c \<Rightarrow>
          open_conns env uri_vars ignore_init_error timeout flags rest
            (self\<lparr>conns := conns self @ [c],
                  nfs_conn := (if plugin_name = ''nfs'' then Some c else nfs_conn self)\<rparr>,
             h @ [ClientOpen (plugin_uri uri_vars plugin_name) timeout flags])
      | Inl (LsmError code msg) \<Rightarrow>
          if ignore_init_error
          then open_conns env uri_vars ignore_init_error timeout flags rest
                 (self, h @ [ClientOpen (plugin_uri uri_vars plugin_name) timeout flags])
          else (Inl (LsmError code msg),
                (self, h @ [ClientOpen (plugin_uri uri_vars plugin_name) timeout flags]))
      | Inl (Exception m) \<Rightarrow>
          (Inl (Exception m),
           (self, h @ [ClientOpen (plugin_uri uri_vars plugin_name) timeout flags])))"

text \<open>Lines 160 to 162: the systems of one connection.\<close>

fun bind_conn :: "conn \<Rightarrow> system list \<Rightarrow> LocalPlugin \<Rightarrow> LocalPlugin" where
  "bind_conn c [] self = self"
| "bind_conn c (sys # rest) self =
     bind_conn c rest
       (self\<lparr>sys_con_map := AList.update (sys_id sys) c (sys_con_map self),
             syss := syss self @ [sys]\<rparr>)"

text \<open>Lines 159 to 162: every connection of \<^verbatim>\<open>self.conns\<close> in turn.\<close>

fun bind_systems :: "'r env \<Rightarrow> conn list \<Rightarrow> world \<Rightarrow> (exn + unit) \<times> world" where
  "bind_systems env [] w = (Inr (), w)"
| "bind_systems env (c # cs) (self, h) =
     (case conn_systems env h c of
        Inl e \<Rightarrow> (Inl e, (self, h @ [ConnSystems c]))
      | Inr ss \<Rightarrow> bind_systems env cs (bind_conn c ss self, h @ [ConnSystems c]))"

text \<open>Lines 159 to 165: the routing table, and the error when it stays empty.\<close>

definition build_routing :: "'r env \<Rightarrow> world \<Rightarrow> (exn + unit) \<times> world" where
  "build_routing env w =
     (case bind_systems env (conns (fst w)) w of
        (Inl e, w') \<Rightarrow> (Inl e, w')
      | (Inr u, w') \<Rightarrow>
          if sys_con_map (fst w') = []
          then (Inl (LsmError NO_SUPPORT ''No supported systems found''), w')
          else (Inr (), w'))"

text \<open>The body of \<^verbatim>\<open>plugin_register\<close>; \<^verbatim>\<open>password\<close> is not read.\<close>

definition plugin_register_body ::
  "'r env \<Rightarrow> string \<Rightarrow> string option \<Rightarrow> int \<Rightarrow> int \<Rightarrow> world \<Rightarrow> (exn + unit) \<times> world" where
  "plugin_register_body env uri password timeout flags w =
     (case w of (self0, h) \<Rightarrow>
        let self = self0\<lparr>tmo_ms := timeout\<rparr> in
        if geteuid env \<noteq> 0 then
          (Inl (LsmError INVALID_ARGUMENT
                  ''This plugin requires root privilege both daemon and client''),
           (self, h))
        else
          (case uri_parse env uri of
             Inl e \<Rightarrow> (Inl e, (self, h))
           | Inr uri_parsed \<Rightarrow>
               let uri_vars = (case uri_parsed of None \<Rightarrow> [] | Some ps \<Rightarrow> ps);
                   ignore_init_error = py_bool (dict_get uri_vars ''ignore_init_error'' ''false'')
               in
                 (case select_plugins env uri_vars of
                    Inl e \<Rightarrow> (Inl e, (self, h))
                  | Inr requested_plugins \<Rightarrow>
                      (case open_conns env uri_vars ignore_init_error timeout flags
                              requested_plugins (self, h) of
                         (Inl e, w') \<Rightarrow> (Inl e, w')
                       | (Inr u, w') \<Rightarrow> build_routing env w'))))"

definition plugin_register ::
  "'r env \<Rightarrow> string \<Rightarrow> string option \<Rightarrow> int \<Rightarrow> int \<Rightarrow> world \<Rightarrow> (exn + unit) \<times> world" where
  "plugin_register env uri password timeout flags =
     handle_errors (plugin_register_body env uri password timeout flags)"

subsection \<open>Shutdown\<close>

text \<open>The loop of \<^verbatim>\<open>plugin_unregister\<close>: \<^verbatim>\<open>conn.plugin_unregister()\<close> on each connection.\<close>

fun unregister_loop :: "'r env \<Rightarrow> conn list \<Rightarrow> call list \<Rightarrow> (exn + unit) \<times> call list" where
  "unregister_loop env [] h = (Inr (), h)"
| "unregister_loop env (c # cs) h =
     (case conn_plugin_unregister env h c of
        Inl e \<Rightarrow> (Inl e, h @ [ConnPluginUnregister c])
      | Inr u \<Rightarrow> unregister_loop env cs (h @ [ConnPluginUnregister c]))"

definition plugin_unregister :: "'r env \<Rightarrow> int \<Rightarrow> world \<Rightarrow> (exn + unit) \<times> world" where
  "plugin_unregister env flags =
     handle_errors (\<lambda>w. case w of (self, h) \<Rightarrow>
       (case unregister_loop env (conns self) h of
          (Inl e, h') \<Rightarrow> (Inl e, (self, h'))
        | (Inr u, h') \<Rightarrow> (Inr (), (self\<lparr>unregistered := True\<rparr>, h'))))"

text \<open>
  \<^verbatim>\<open>__del__\<close>: the finalizer calls \<^verbatim>\<open>plugin_unregister\<close> unless the flag is set; Python
  drops what a finalizer raises.
\<close>

definition del :: "'r env \<Rightarrow> world \<Rightarrow> world" where
  "del env w =
     (if \<not> unregistered (fst w) then snd (plugin_unregister env (FLAG_RSVD env) w) else w)"

subsection \<open>Jobs, information, timeout\<close>

definition job_status :: "'r env \<Rightarrow> string \<Rightarrow> int \<Rightarrow> world \<Rightarrow> (exn + 'r) \<times> world" where
  "job_status env job_id flags =
     handle_errors (\<lambda>w. (Inl (LsmError NO_SUPPORT ''Not supported yet''), w))"

definition job_free :: "'r env \<Rightarrow> string \<Rightarrow> int \<Rightarrow> world \<Rightarrow> (exn + 'r) \<times> world" where
  "job_free env job_id flags =
     handle_errors (\<lambda>w. (Inl (LsmError NO_SUPPORT ''Not supported yet''), w))"

definition plugin_info :: "'r env \<Rightarrow> int \<Rightarrow> world \<Rightarrow> (exn + string \<times> string) \<times> world" where
  "plugin_info env flags =
     handle_errors (\<lambda>w. (Inr (''Local Pseudo Plugin'', VERSION env), w))"

text \<open>The loop of \<^verbatim>\<open>time_out_set\<close>: \<^verbatim>\<open>conn.time_out_set(ms, flags)\<close> on each connection.\<close>

fun time_out_loop ::
  "'r env \<Rightarrow> int \<Rightarrow> int \<Rightarrow> conn list \<Rightarrow> call list \<Rightarrow> (exn + unit) \<times> call list" where
  "time_out_loop env ms flags [] h = (Inr (), h)"
| "time_out_loop env ms flags (c # cs) h =
     (case conn_time_out_set env h c ms flags of
        Inl e \<Rightarrow> (Inl e, h @ [ConnTimeOutSet c ms flags])
      | Inr u \<Rightarrow> time_out_loop env ms flags cs (h @ [ConnTimeOutSet c ms flags]))"

text \<open>\<^verbatim>\<open>time_out_set\<close>: the assignment to \<^verbatim>\<open>self._tmo_ms\<close> comes first.\<close>

definition time_out_set :: "'r env \<Rightarrow> int \<Rightarrow> int \<Rightarrow> world \<Rightarrow> (exn + unit) \<times> world" where
  "time_out_set env ms flags =
     handle_errors (\<lambda>w. case w of (self0, h) \<Rightarrow>
       let self = self0\<lparr>tmo_ms := ms\<rparr> in
       (case time_out_loop env ms flags (conns self) h of
          (r, h') \<Rightarrow> (r, (self, h'))))"

definition time_out_get :: "'r env \<Rightarrow> int \<Rightarrow> world \<Rightarrow> (exn + int) \<times> world" where
  "time_out_get env flags = handle_errors (\<lambda>w. (Inr (tmo_ms (fst w)), w))"

subsection \<open>The public operations that forward\<close>

definition systems :: "'r env \<Rightarrow> int \<Rightarrow> world \<Rightarrow> (exn + system list) \<times> world" where
  "systems env flags = handle_errors (\<lambda>w. (Inr (syss (fst w)), w))"

definition capabilities :: "'r env \<Rightarrow> system \<Rightarrow> int \<Rightarrow> world \<Rightarrow> (exn + 'r) \<times> world" where
  "capabilities env sys flags =
     handle_errors (p_exec env (sys_id sys) ''capabilities''
       [(''system'', ArgSystem sys), (''flags'', ArgInt flags)])"

definition disks ::
  "'r env \<Rightarrow> string option \<Rightarrow> string option \<Rightarrow> int \<Rightarrow> world \<Rightarrow> (exn + lsm_obj list) \<times> world" where
  "disks env search_key search_value flags =
     handle_errors (p_query env ''disks'' search_key search_value flags)"

definition pools ::
  "'r env \<Rightarrow> string option \<Rightarrow> string option \<Rightarrow> int \<Rightarrow> world \<Rightarrow> (exn + lsm_obj list) \<times> world" where
  "pools env search_key search_value flags =
     handle_errors (p_query env ''pools'' search_key search_value flags)"

definition volumes ::
  "'r env \<Rightarrow> string option \<Rightarrow> string option \<Rightarrow> int \<Rightarrow> world \<Rightarrow> (exn + lsm_obj list) \<times> world" where
  "volumes env search_key search_value flags =
     handle_errors (p_query env ''volumes'' search_key search_value flags)"

definition batteries ::
  "'r env \<Rightarrow> string option \<Rightarrow> string option \<Rightarrow> int \<Rightarrow> world \<Rightarrow> (exn + lsm_obj list) \<times> world" where
  "batteries env search_key search_value flags =
     handle_errors (p_query env ''batteries'' search_key search_value flags)"

definition fs ::
  "'r env \<Rightarrow> string option \<Rightarrow> string option \<Rightarrow> int \<Rightarrow> world \<Rightarrow> (exn + lsm_obj list) \<times> world" where
  "fs env search_key search_value flags =
     handle_errors (p_query env ''fs'' search_key search_value flags)"

definition volume_raid_info :: "'r env \<Rightarrow> lsm_obj \<Rightarrow> int \<Rightarrow> world \<Rightarrow> (exn + 'r) \<times> world" where
  "volume_raid_info env volume flags =
     handle_errors (p_exec env (system_id volume) ''volume_raid_info''
       [(''volume'', ArgObj volume), (''flags'', ArgInt flags)])"

definition pool_member_info :: "'r env \<Rightarrow> lsm_obj \<Rightarrow> int \<Rightarrow> world \<Rightarrow> (exn + 'r) \<times> world" where
  "pool_member_info env pool flags =
     handle_errors (p_exec env (system_id pool) ''pool_member_info''
       [(''pool'', ArgObj pool), (''flags'', ArgInt flags)])"

definition volume_raid_create_cap_get ::
  "'r env \<Rightarrow> system \<Rightarrow> int \<Rightarrow> world \<Rightarrow> (exn + 'r) \<times> world" where
  "volume_raid_create_cap_get env sys flags =
     handle_errors (p_exec env (sys_id sys) ''volume_raid_create_cap_get''
       [(''system'', ArgSystem sys), (''flags'', ArgInt flags)])"

text \<open>\<^verbatim>\<open>volume_raid_create\<close>: the system is that of the first disk.\<close>

definition volume_raid_create ::
  "'r env \<Rightarrow> string \<Rightarrow> int \<Rightarrow> lsm_obj list \<Rightarrow> int \<Rightarrow> int \<Rightarrow> world \<Rightarrow> (exn + 'r) \<times> world" where
  "volume_raid_create env name raid_type dsks strip_size flags =
     handle_errors (\<lambda>w.
       case dsks of
         [] \<Rightarrow> (Inl (LsmError INVALID_ARGUMENT ''No disk defined''), w)
       | d # ds \<Rightarrow>
           p_exec env (system_id d) ''volume_raid_create''
             [(''name'', ArgStr name), (''raid_type'', ArgInt raid_type),
              (''disks'', ArgObjs dsks), (''strip_size'', ArgInt strip_size),
              (''flags'', ArgInt flags)] w)"

definition volume_cache_info :: "'r env \<Rightarrow> lsm_obj \<Rightarrow> int \<Rightarrow> world \<Rightarrow> (exn + 'r) \<times> world" where
  "volume_cache_info env volume flags =
     handle_errors (p_exec env (system_id volume) ''volume_cache_info''
       [(''volume'', ArgObj volume), (''flags'', ArgInt flags)])"

definition volume_physical_disk_cache_update ::
  "'r env \<Rightarrow> lsm_obj \<Rightarrow> int \<Rightarrow> int \<Rightarrow> world \<Rightarrow> (exn + 'r) \<times> world" where
  "volume_physical_disk_cache_update env volume pdc flags =
     handle_errors (p_exec env (system_id volume) ''volume_physical_disk_cache_update''
       [(''volume'', ArgObj volume), (''pdc'', ArgInt pdc), (''flags'', ArgInt flags)])"

definition volume_write_cache_policy_update ::
  "'r env \<Rightarrow> lsm_obj \<Rightarrow> int \<Rightarrow> int \<Rightarrow> world \<Rightarrow> (exn + 'r) \<times> world" where
  "volume_write_cache_policy_update env volume wcp flags =
     handle_errors (p_exec env (system_id volume) ''volume_write_cache_policy_update''
       [(''volume'', ArgObj volume), (''wcp'', ArgInt wcp), (''flags'', ArgInt flags)])"

definition volume_read_cache_policy_update ::
  "'r env \<Rightarrow> lsm_obj \<Rightarrow> int \<Rightarrow> int \<Rightarrow> world \<Rightarrow> (exn + 'r) \<times> world" where
  "volume_read_cache_policy_update env volume rcp flags =
     handle_errors (p_exec env (system_id volume) ''volume_read_cache_policy_update''
       [(''volume'', ArgObj volume), (''rcp'', ArgInt rcp), (''flags'', ArgInt flags)])"

definition volume_delete :: "'r env \<Rightarrow> lsm_obj \<Rightarrow> int \<Rightarrow> world \<Rightarrow> (exn + 'r) \<times> world" where
  "volume_delete env volume flags =
     handle_errors (p_exec env (system_id volume) ''volume_delete''
       [(''volume'', ArgObj volume), (''flags'', ArgInt flags)])"

subsection \<open>Exports\<close>

text \<open>
  The four export operations go to \<^verbatim>\<open>self.nfs_conn\<close>. The first three carry the
  decorator; \<^verbatim>\<open>export_auth\<close> (line 369) is defined without it.
\<close>

definition exports ::
  "'r env \<Rightarrow> string option \<Rightarrow> string option \<Rightarrow> int \<Rightarrow> world \<Rightarrow> (exn + 'r) \<times> world" where
  "exports env search_key search_value flags =
     handle_errors (\<lambda>w. case w of (self, h) \<Rightarrow>
       (case nfs_conn self of
          Some c \<Rightarrow>
            (conn_exports env h c search_key search_value flags,
             (self, h @ [ConnExports c search_key search_value flags]))
        | None \<Rightarrow>
            (Inl (LsmError NO_SUPPORT
               (''NFS plugin is not loaded, please start nfsd kernel ''
                @ ''module and related services'')), (self, h))))"

definition export_fs ::
  "'r env \<Rightarrow> export_fs_args \<Rightarrow> int \<Rightarrow> world \<Rightarrow> (exn + 'r) \<times> world" where
  "export_fs env args flags =
     handle_errors (\<lambda>w. case w of (self, h) \<Rightarrow>
       (case nfs_conn self of
          Some c \<Rightarrow>
            (conn_export_fs env h c args flags, (self, h @ [ConnExportFs c args flags]))
        | None \<Rightarrow>
            (Inl (LsmError NO_SUPPORT
               (''NFS plugin is not loaded, please load nfsd kernel ''
                @ ''module and related services'')), (self, h))))"

definition export_remove ::
  "'r env \<Rightarrow> lsm_obj \<Rightarrow> int \<Rightarrow> world \<Rightarrow> (exn + 'r) \<times> world" where
  "export_remove env export flags =
     handle_errors (\<lambda>w. case w of (self, h) \<Rightarrow>
       (case nfs_conn self of
          Some c \<Rightarrow>
            (conn_export_remove env h c export flags,
             (self, h @ [ConnExportRemove c export flags]))
        | None \<Rightarrow>
            (Inl (LsmError NO_SUPPORT
               (''NFS plugin is not loaded, please load nfsd kernel ''
                @ ''module and related services'')), (self, h))))"

definition export_auth :: "'r env \<Rightarrow> int \<Rightarrow> world \<Rightarrow> (exn + 'r) \<times> world" where
  "export_auth env flags w =
     (case w of (self, h) \<Rightarrow>
       (case nfs_conn self of
          Some c \<Rightarrow> (conn_export_auth env h c flags, (self, h @ [ConnExportAuth c flags]))
        | None \<Rightarrow>
            (Inl (LsmError NO_SUPPORT
               (''NFS plugin is not loaded, please load nfsd kernel ''
                @ ''module and related services'')), (self, h))))"

section \<open>Vocabulary of the properties\<close>

text \<open>The five public collection queries, each with the name it passes to \<^verbatim>\<open>_query\<close>.\<close>

definition collection_queries ::
  "'r env \<Rightarrow>
   ((string option \<Rightarrow> string option \<Rightarrow> int \<Rightarrow> world \<Rightarrow> (exn + lsm_obj list) \<times> world) \<times> string) list"
  where
  "collection_queries env =
     [(disks env, ''disks''), (pools env, ''pools''), (volumes env, ''volumes''),
      (batteries env, ''batteries''), (fs env, ''fs'')]"

text \<open>What \<^verbatim>\<open>search_value in self.sys_con_map.keys()\<close> finds.\<close>

definition owner_of :: "LocalPlugin \<Rightarrow> string option \<Rightarrow> conn option" where
  "owner_of self search_value =
     (case search_value of None \<Rightarrow> None | Some v \<Rightarrow> map_of (sys_con_map self) v)"

text \<open>
  The answers the connections of a list give to one collection query when each is asked
  once, in the order of the list; every call made is in the log the next connection
  sees.
\<close>

fun query_replies ::
  "'r env \<Rightarrow> string \<Rightarrow> int \<Rightarrow> conn list \<Rightarrow> call list \<Rightarrow> (exn + lsm_obj list) list" where
  "query_replies env name flags [] h = []"
| "query_replies env name flags (c # cs) h =
     conn_query env h c name flags
       # query_replies env name flags cs (h @ [ConnQuery c name flags])"

text \<open>An answer the fan-out goes on after: a result, or the error \<^verbatim>\<open>NO_SUPPORT\<close>.\<close>

definition tolerated :: "exn + 'a \<Rightarrow> bool" where
  "tolerated r =
     (case r of
        Inr x \<Rightarrow> True
      | Inl (LsmError code msg) \<Rightarrow> code = NO_SUPPORT
      | Inl (Exception m) \<Rightarrow> False)"

text \<open>The entries an answer adds to the merged result.\<close>

definition contributes :: "exn + 'a list \<Rightarrow> 'a list" where
  "contributes r = (case r of Inr xs \<Rightarrow> xs | Inl e \<Rightarrow> [])"

text \<open>
  The answers the connections of a list give to \<^verbatim>\<open>systems()\<close> when each is asked once,
  in order.
\<close>

fun systems_replies :: "'r env \<Rightarrow> conn list \<Rightarrow> call list \<Rightarrow> (exn + system list) list" where
  "systems_replies env [] h = []"
| "systems_replies env (c # cs) h =
     conn_systems env h c # systems_replies env cs (h @ [ConnSystems c])"

text \<open>
  The bindings the answers ask for, oldest first: each reported system identifier with
  the connection that reported it.
\<close>

fun reported_bindings :: "conn list \<Rightarrow> (exn + system list) list \<Rightarrow> (string \<times> conn) list" where
  "reported_bindings (c # cs) (r # rs) =
     map (\<lambda>sys. (sys_id sys, c)) (contributes r) @ reported_bindings cs rs"
| "reported_bindings cs rs = []"

text \<open>
  The list of systems as the spec words it: one entry for each identifier, that of the
  connection which reported it last.
\<close>

fun last_write_wins :: "system list \<Rightarrow> system list" where
  "last_write_wins [] = []"
| "last_write_wins (sys # rest) =
     (if sys_id sys \<in> set (map sys_id rest) then last_write_wins rest
      else sys # last_write_wins rest)"

text \<open>
  The answers of the \<^verbatim>\<open>Client\<close> constructor for a list of backends when each is opened
  once, in order.
\<close>

fun open_replies ::
  "'r env \<Rightarrow> (string \<times> string) list \<Rightarrow> int \<Rightarrow> int \<Rightarrow> string list \<Rightarrow> call list
     \<Rightarrow> (exn + conn) list" where
  "open_replies env uri_vars timeout flags [] h = []"
| "open_replies env uri_vars timeout flags (p # ps) h =
     Client env h (plugin_uri uri_vars p) timeout flags
       # open_replies env uri_vars timeout flags ps
           (h @ [ClientOpen (plugin_uri uri_vars p) timeout flags])"

text \<open>
  An answer after which the loop of line 144 opens the next backend: a connection, or an
  \<^verbatim>\<open>LsmError\<close> while \<^verbatim>\<open>ignore_init_error\<close> is true.
\<close>

definition goes_on :: "bool \<Rightarrow> exn + conn \<Rightarrow> bool" where
  "goes_on ignore_init_error r =
     (case r of
        Inr c \<Rightarrow> True
      | Inl (LsmError code msg) \<Rightarrow> ignore_init_error
      | Inl (Exception m) \<Rightarrow> False)"

text \<open>The connections among the answers, in order.\<close>

fun opened :: "(exn + conn) list \<Rightarrow> conn list" where
  "opened [] = []"
| "opened (Inr c # rs) = c # opened rs"
| "opened (Inl e # rs) = opened rs"

text \<open>\<^verbatim>\<open>self.nfs_conn\<close> after the answers: the connection of the backend named \<^verbatim>\<open>nfs\<close>.\<close>

fun nfs_after :: "conn option \<Rightarrow> string list \<Rightarrow> (exn + conn) list \<Rightarrow> conn option" where
  "nfs_after n (p # ps) (Inr c # rs) = nfs_after (if p = ''nfs'' then Some c else n) ps rs"
| "nfs_after n (p # ps) (Inl e # rs) = nfs_after n ps rs"
| "nfs_after n ps rs = n"

text \<open>
  The answers the connections of a list give to \<^verbatim>\<open>time_out_set(ms, flags)\<close> when each
  is called once, in order.
\<close>

fun time_out_replies ::
  "'r env \<Rightarrow> int \<Rightarrow> int \<Rightarrow> conn list \<Rightarrow> call list \<Rightarrow> (exn + unit) list" where
  "time_out_replies env ms flags [] h = []"
| "time_out_replies env ms flags (c # cs) h =
     conn_time_out_set env h c ms flags
       # time_out_replies env ms flags cs (h @ [ConnTimeOutSet c ms flags])"

section \<open>Test doubles\<close>

text \<open>
  A machine with no hardware, run by root: no kernel module of the table, no tool, every
  \<^verbatim>\<open>Client\<close> refused, and connections that answer every call with nothing.
\<close>

definition quiet_env :: "string env" where
  "quiet_env =
     \<lparr>geteuid = 0,
      uri_parse = (\<lambda>uri. Inr None),
      listdir_sys_module = Inr [],
      find_arcconf = False,
      find_sacli = False,
      set_iter = remdups,
      VERSION = ''1.0'',
      FLAG_RSVD = 0,
      Client = (\<lambda>h uri timeout flags. Inl (LsmError NO_SUPPORT ''no such backend'')),
      conn_systems = (\<lambda>h c. Inr []),
      conn_query = (\<lambda>h c name flags. Inr []),
      conn_exec = (\<lambda>h c name params. Inr ''done''),
      conn_plugin_unregister = (\<lambda>h c. Inr ()),
      conn_time_out_set = (\<lambda>h c ms flags. Inr ()),
      conn_exports = (\<lambda>h c k v flags. Inr ''exports''),
      conn_export_fs = (\<lambda>h c args flags. Inr ''exported''),
      conn_export_remove = (\<lambda>h c export flags. Inr ''removed''),
      conn_export_auth = (\<lambda>h c flags. Inr ''auth'')\<rparr>"

text \<open>A router bound to one connection, number 1, which owns the system \<^verbatim>\<open>sysA\<close>.\<close>

definition one_conn :: LocalPlugin where
  "one_conn = init\<lparr>conns := [1], sys_con_map := [(''sysA'', 1)],
                    syss := [\<lparr>sys_id = ''sysA'', sys_attrs = []\<rparr>]\<rparr>"

text \<open>A volume, by its identifier and the identifier of its system.\<close>

definition vol :: "string \<Rightarrow> string \<Rightarrow> lsm_obj" where
  "vol i s = \<lparr>obj_id = i, system_id = s, attrs = []\<rparr>"

text \<open>
  A connection that manages two systems: asked for the volumes of \<^verbatim>\<open>sysA\<close>, the router
  returns the volume of \<^verbatim>\<open>sysZ\<close> too, which the filter would have removed.
\<close>

definition two_system_env :: "string env" where
  "two_system_env =
     quiet_env\<lparr>conn_query := (\<lambda>h c name flags. Inr [vol ''v1'' ''sysA'', vol ''v2'' ''sysZ''])\<rparr>"

text \<open>
  A machine whose only storage driver is \<^verbatim>\<open>smartpqi\<close>, with or without the two command
  line tools.
\<close>

definition smartpqi_env :: "bool \<Rightarrow> bool \<Rightarrow> string env" where
  "smartpqi_env arcconf_found sacli_found =
     quiet_env\<lparr>listdir_sys_module := Inr [''smartpqi''],
               find_arcconf := arcconf_found,
               find_sacli := sacli_found\<rparr>"

text \<open>A router with two connections; connection 2 refuses every new timeout.\<close>

definition two_conns :: LocalPlugin where
  "two_conns = init\<lparr>conns := [1, 2], sys_con_map := [(''sysA'', 1), (''sysB'', 2)],
                     syss := [\<lparr>sys_id = ''sysA'', sys_attrs = []\<rparr>,
                              \<lparr>sys_id = ''sysB'', sys_attrs = []\<rparr>]\<rparr>"

definition strict_timeout_env :: "string env" where
  "strict_timeout_env =
     quiet_env\<lparr>conn_time_out_set := (\<lambda>h c ms flags.
       if c = 2 then Inl (LsmError INVALID_ARGUMENT ''timeout out of range'') else Inr ())\<rparr>"

text \<open>
  A router whose connection 1 is the NFS backend, and a backend whose export calls fail
  with an exception that is not an \<^verbatim>\<open>LsmError\<close>.
\<close>

definition nfs_router :: LocalPlugin where
  "nfs_router = init\<lparr>conns := [1], sys_con_map := [(''nfs-host'', 1)],
                      syss := [\<lparr>sys_id = ''nfs-host'', sys_attrs = []\<rparr>],
                      nfs_conn := Some 1\<rparr>"

definition broken_nfs_env :: "string env" where
  "broken_nfs_env =
     quiet_env\<lparr>conn_export_auth := (\<lambda>h c flags. Inl (Exception ''connection lost'')),
               conn_export_remove := (\<lambda>h c export flags. Inl (Exception ''connection lost''))\<rparr>"

text \<open>
  Three connections: 1 has two volumes, 2 does not support the query, 3 has one volume.
  In the second double connection 2 fails with another error instead.
\<close>

definition three_conns :: LocalPlugin where
  "three_conns = init\<lparr>conns := [1, 2, 3],
                       sys_con_map := [(''sysA'', 1), (''sysB'', 2), (''sysC'', 3)]\<rparr>"

definition no_support_env :: "string env" where
  "no_support_env =
     quiet_env\<lparr>conn_query := (\<lambda>h c name flags.
       if c = 1 then Inr [vol ''v1'' ''sysA'', vol ''v2'' ''sysA'']
       else if c = 2 then Inl (LsmError NO_SUPPORT ''Not supported'')
       else Inr [vol ''v3'' ''sysC''])\<rparr>"

definition failing_env :: "string env" where
  "failing_env =
     quiet_env\<lparr>conn_query := (\<lambda>h c name flags.
       if c = 1 then Inr [vol ''v1'' ''sysA'', vol ''v2'' ''sysA'']
       else if c = 2 then Inl (LsmError (OTHER_ERROR 1) ''Library bug'')
       else Inr [vol ''v3'' ''sysC''])\<rparr>"

text \<open>Two systems with the same identifier and different names.\<close>

definition dup_first :: system where
  "dup_first = \<lparr>sys_id = ''dup'', sys_attrs = [(''name'', ''first'')]\<rparr>"

definition dup_second :: system where
  "dup_second = \<lparr>sys_id = ''dup'', sys_attrs = [(''name'', ''second'')]\<rparr>"

text \<open>
  A machine with a MegaRAID and a Smart Array controller; both backends open, as
  connections 1 and 2, and both report a system with the identifier \<^verbatim>\<open>dup\<close>: connection 1 the first, connection 2
  the second.
\<close>

definition dup_env :: "string env" where
  "dup_env =
     quiet_env\<lparr>listdir_sys_module := Inr [''hpsa'', ''megaraid_sas''],
               Client := (\<lambda>h uri timeout flags.
                 if uri = ''megaraid://'' then Inr 1
                 else if uri = ''hpsa://'' then Inr 2
                 else Inl (LsmError NO_SUPPORT ''no such backend'')),
               conn_systems := (\<lambda>h c.
                 if c = 1 then Inr [dup_first]
                 else Inr [dup_second])\<rparr>"

text \<open>The router and the log after \<^verbatim>\<open>plugin_register\<close> on that machine.\<close>

definition dup_registered :: world where
  "dup_registered =
     (\<lparr>tmo_ms = 3000, conns = [1, 2], syss = [dup_first, dup_second],
       sys_con_map = [(''dup'', 2)], unregistered = False, nfs_conn = None\<rparr>,
      [ClientOpen ''megaraid://'' 3000 0, ClientOpen ''hpsa://'' 3000 0,
       ConnSystems 1, ConnSystems 2])"

text \<open>
  A machine with a MegaRAID controller and an NFS server module: the MegaRAID backend
  opens as connection 1 and reports one system, the NFS backend fails to open with an
  \<^verbatim>\<open>LsmError\<close>. The parser knows three connection strings.
\<close>

definition half_env :: "string env" where
  "half_env =
     quiet_env\<lparr>uri_parse := (\<lambda>uri.
                 if uri = ''local://?ignore_init_error='' then
                   Inr (Some [(''ignore_init_error'', '''')])
                 else if uri = ''local://?ignore_init_error=true'' then
                   Inr (Some [(''ignore_init_error'', ''true'')])
                 else if uri = ''local://?only=nfs&ignore_init_error=true'' then
                   Inr (Some [(''only'', ''nfs''), (''ignore_init_error'', ''true'')])
                 else Inr None),
               listdir_sys_module := Inr [''megaraid_sas'', ''nfsd''],
               Client := (\<lambda>h uri timeout flags.
                 if uri = ''megaraid://'' then Inr 1
                 else Inl (LsmError (OTHER_ERROR 2) ''nfs service is not running'')),
               conn_systems := (\<lambda>h c. Inr [\<lparr>sys_id = ''sysA'', sys_attrs = []\<rparr>])\<rparr>"

section \<open>Properties\<close>

subsection \<open>Helper facts\<close>

lemma handle_errors_world: "snd (handle_errors method w) = snd (method w)"
  by (simp add: handle_errors_def split: prod.splits sum.splits exn.splits)

lemma p_query_system_id_absent:
  "owner_of self search_value = None
     \<Longrightarrow> p_query env name (Some ''system_id'') search_value flags (self, h)
         = (Inr [], (self, h))"
  by (simp add: p_query_def owner_of_def)

lemma p_query_system_id_present:
  "owner_of self search_value = Some c
     \<Longrightarrow> p_query env name (Some ''system_id'') search_value flags (self, h)
         = (conn_query env h c name flags, (self, h @ [ConnQuery c name flags]))"
  by (simp add: p_query_def owner_of_def)

lemma collection_queries_cases:
  "(q, name) \<in> set (collection_queries env)
     \<Longrightarrow> q = (\<lambda>k v flags. handle_errors (p_query env name k v flags))"
  by (auto simp: collection_queries_def disks_def pools_def volumes_def batteries_def fs_def
           intro!: ext)

subsection \<open>Operations on one system\<close>

text \<open>
  Claim C7. A single-target operation whose operand names a system that is not in the
  routing table fails with \<^verbatim>\<open>NOT_FOUND_SYSTEM\<close>; the object and the log of backend calls
  are what they were, so no connection has been called. This holds for the ten operations
  that go through \<^verbatim>\<open>_exec\<close>: those on a system, those on a volume or pool, and
  \<^verbatim>\<open>volume_raid_create\<close> on the system of its first disk.
\<close>

theorem unknown_system_not_found:
  fixes env :: "'r env"
  assumes sys: "map_of (sys_con_map self) (sys_id sys) = None"
      and ob: "map_of (sys_con_map self) (system_id ob) = None"
  shows "capabilities env sys flags (self, h)
           = (Inl (LsmError NOT_FOUND_SYSTEM ''System not found''), (self, h))
       \<and> volume_raid_create_cap_get env sys flags (self, h)
           = (Inl (LsmError NOT_FOUND_SYSTEM ''System not found''), (self, h))
       \<and> volume_raid_info env ob flags (self, h)
           = (Inl (LsmError NOT_FOUND_SYSTEM ''System not found''), (self, h))
       \<and> pool_member_info env ob flags (self, h)
           = (Inl (LsmError NOT_FOUND_SYSTEM ''System not found''), (self, h))
       \<and> volume_raid_create env name raid_type (ob # more_disks) strip_size flags (self, h)
           = (Inl (LsmError NOT_FOUND_SYSTEM ''System not found''), (self, h))
       \<and> volume_cache_info env ob flags (self, h)
           = (Inl (LsmError NOT_FOUND_SYSTEM ''System not found''), (self, h))
       \<and> volume_physical_disk_cache_update env ob pdc flags (self, h)
           = (Inl (LsmError NOT_FOUND_SYSTEM ''System not found''), (self, h))
       \<and> volume_write_cache_policy_update env ob wcp flags (self, h)
           = (Inl (LsmError NOT_FOUND_SYSTEM ''System not found''), (self, h))
       \<and> volume_read_cache_policy_update env ob rcp flags (self, h)
           = (Inl (LsmError NOT_FOUND_SYSTEM ''System not found''), (self, h))
       \<and> volume_delete env ob flags (self, h)
           = (Inl (LsmError NOT_FOUND_SYSTEM ''System not found''), (self, h))"
  by (simp add: capabilities_def volume_raid_create_cap_get_def volume_raid_info_def
        pool_member_info_def volume_raid_create_def volume_cache_info_def
        volume_physical_disk_cache_update_def volume_write_cache_policy_update_def
        volume_read_cache_policy_update_def volume_delete_def
        handle_errors_def p_exec_def sys ob)

theorem unknown_system_not_found_witness:
  "map_of (sys_con_map one_conn) (sys_id \<lparr>sys_id = ''sysB'', sys_attrs = []\<rparr>) = None
   \<and> map_of (sys_con_map one_conn) (system_id (vol ''v1'' ''sysB'')) = None
   \<and> volume_delete quiet_env (vol ''v1'' ''sysB'') 0 (one_conn, [])
       = (Inl (LsmError NOT_FOUND_SYSTEM ''System not found''), (one_conn, []))
   \<and> capabilities quiet_env \<lparr>sys_id = ''sysB'', sys_attrs = []\<rparr> 0 (one_conn, [])
       = (Inl (LsmError NOT_FOUND_SYSTEM ''System not found''), (one_conn, []))"
proof -
  have a: "map_of (sys_con_map one_conn) (sys_id \<lparr>sys_id = ''sysB'', sys_attrs = []\<rparr>) = None"
    by (simp add: one_conn_def init_def)
  have b: "map_of (sys_con_map one_conn) (system_id (vol ''v1'' ''sysB'')) = None"
    by (simp add: one_conn_def init_def vol_def)
  from unknown_system_not_found [OF a b, of quiet_env 0 "[]"] a b
  show ?thesis by simp
qed

subsection \<open>Collection queries filtered by system\<close>

text \<open>
  Claim C5. For each of \<^verbatim>\<open>disks\<close>, \<^verbatim>\<open>pools\<close>, \<^verbatim>\<open>volumes\<close>, \<^verbatim>\<open>batteries\<close> and \<^verbatim>\<open>fs\<close>
  called with the search key \<^verbatim>\<open>system_id\<close>: when the search value is not a key of the
  routing table the result is the empty list and the log of backend calls is unchanged
  (no connection is queried); when it is a key, the log grows by exactly one call, the
  query on the connection that owns the system.
\<close>

theorem system_id_query_routing:
  fixes env :: "'r env"
  assumes "(q, name) \<in> set (collection_queries env)"
  shows "(owner_of self search_value = None \<longrightarrow>
            q (Some ''system_id'') search_value flags (self, h) = (Inr [], (self, h)))
       \<and> (\<forall>c. owner_of self search_value = Some c \<longrightarrow>
            snd (q (Some ''system_id'') search_value flags (self, h))
              = (self, h @ [ConnQuery c name flags]))"
  unfolding collection_queries_cases [OF assms]
  by (simp add: handle_errors_world p_query_system_id_present)
     (simp add: handle_errors_def p_query_system_id_absent)

theorem system_id_query_routing_witness:
  "(volumes quiet_env, ''volumes'') \<in> set (collection_queries quiet_env)
   \<and> owner_of one_conn (Some ''sysB'') = None
   \<and> volumes quiet_env (Some ''system_id'') (Some ''sysB'') 0 (one_conn, [])
       = (Inr [], (one_conn, []))
   \<and> owner_of one_conn (Some ''sysA'') = Some 1
   \<and> snd (volumes quiet_env (Some ''system_id'') (Some ''sysA'') 0 (one_conn, []))
       = (one_conn, [ConnQuery 1 ''volumes'' 0])"
proof -
  have m: "(volumes quiet_env, ''volumes'') \<in> set (collection_queries quiet_env)"
    by (simp add: collection_queries_def)
  have a: "owner_of one_conn (Some ''sysB'') = None"
    by (simp add: owner_of_def one_conn_def init_def)
  have p: "owner_of one_conn (Some ''sysA'') = Some 1"
    by (simp add: owner_of_def one_conn_def init_def)
  from system_id_query_routing [OF m, of one_conn "Some ''sysB''" 0 "[]"]
       system_id_query_routing [OF m, of one_conn "Some ''sysA''" 0 "[]"] m a p
  show ?thesis by simp
qed

text \<open>
  Claim C9. With the search key \<^verbatim>\<open>system_id\<close> and a search value that is a key of the
  routing table, each of the five collection queries returns the list the owning
  connection returns, entry for entry: no filter is applied, so entries of another system
  that the same connection manages stay in the result.
\<close>

theorem system_id_query_unfiltered:
  fixes env :: "'r env"
  assumes "(q, name) \<in> set (collection_queries env)"
      and "map_of (sys_con_map self) v = Some c"
      and "conn_query env h c name flags = Inr objs"
  shows "q (Some ''system_id'') (Some v) flags (self, h)
           = (Inr objs, (self, h @ [ConnQuery c name flags]))"
  unfolding collection_queries_cases [OF assms(1)]
  using assms(2,3)
  by (simp add: handle_errors_def p_query_def)

theorem system_id_query_unfiltered_witness:
  "(volumes two_system_env, ''volumes'') \<in> set (collection_queries two_system_env)
   \<and> map_of (sys_con_map one_conn) ''sysA'' = Some 1
   \<and> conn_query two_system_env [] 1 ''volumes'' 0
       = Inr [vol ''v1'' ''sysA'', vol ''v2'' ''sysZ'']
   \<and> volumes two_system_env (Some ''system_id'') (Some ''sysA'') 0 (one_conn, [])
       = (Inr [vol ''v1'' ''sysA'', vol ''v2'' ''sysZ''], (one_conn, [ConnQuery 1 ''volumes'' 0]))
   \<and> search_property [vol ''v1'' ''sysA'', vol ''v2'' ''sysZ''] (Some ''system_id'') (Some ''sysA'')
       = [vol ''v1'' ''sysA'']"
proof -
  have m: "(volumes two_system_env, ''volumes'') \<in> set (collection_queries two_system_env)"
    by (simp add: collection_queries_def)
  have p: "map_of (sys_con_map one_conn) ''sysA'' = Some 1"
    by (simp add: one_conn_def init_def)
  have r: "conn_query two_system_env [] 1 ''volumes'' 0
             = Inr [vol ''v1'' ''sysA'', vol ''v2'' ''sysZ'']"
    by (simp add: two_system_env_def)
  have f: "search_property [vol ''v1'' ''sysA'', vol ''v2'' ''sysZ''] (Some ''system_id'')
             (Some ''sysA'') = [vol ''v1'' ''sysA'']"
    by (simp add: search_property_def getattr_def vol_def)
  from system_id_query_unfiltered [OF m p r] m p r f
  show ?thesis by simp
qed

subsection \<open>Selecting the backends\<close>

text \<open>
  Claim C8. When no \<^verbatim>\<open>only=\<close> override is given and the kernel module \<^verbatim>\<open>smartpqi\<close> is
  loaded, the selection adds exactly one backend for it after those of the module table:
  \<^verbatim>\<open>arcconf\<close> if the arcconf tool is found; otherwise \<^verbatim>\<open>hpsa\<close> if the hpsa tool is found;
  otherwise \<^verbatim>\<open>arcconf\<close> again. In each case the selection succeeds with the set made of
  that list.
\<close>

theorem smartpqi_arbitration:
  fixes env :: "'r env"
  assumes "''smartpqi'' \<in> set cur_kmods"
      and "dict_get uri_vars ''only'' [] = []"
      and "listdir_sys_module env = Inr cur_kmods"
  shows "(find_arcconf env \<longrightarrow>
            probe_plugins env cur_kmods
              = map snd (filter (\<lambda>(kmod_name, plugin_name). kmod_name \<in> set cur_kmods)
                           KMOD_PLUGIN_MAP) @ [''arcconf''])
       \<and> (\<not> find_arcconf env \<and> find_sacli env \<longrightarrow>
            probe_plugins env cur_kmods
              = map snd (filter (\<lambda>(kmod_name, plugin_name). kmod_name \<in> set cur_kmods)
                           KMOD_PLUGIN_MAP) @ [''hpsa''])
       \<and> (\<not> find_arcconf env \<and> \<not> find_sacli env \<longrightarrow>
            probe_plugins env cur_kmods
              = map snd (filter (\<lambda>(kmod_name, plugin_name). kmod_name \<in> set cur_kmods)
                           KMOD_PLUGIN_MAP) @ [''arcconf''])
       \<and> select_plugins env uri_vars = Inr (set_iter env (probe_plugins env cur_kmods))"
  using assms by (simp add: probe_plugins_def select_plugins_def)

theorem smartpqi_arbitration_witness:
  "''smartpqi'' \<in> set [''smartpqi'']
   \<and> dict_get [] ''only'' [] = []
   \<and> select_plugins (smartpqi_env True True) [] = Inr [''arcconf'']
   \<and> select_plugins (smartpqi_env True False) [] = Inr [''arcconf'']
   \<and> select_plugins (smartpqi_env False True) [] = Inr [''hpsa'']
   \<and> select_plugins (smartpqi_env False False) [] = Inr [''arcconf'']"
proof -
  have k: "''smartpqi'' \<in> set [''smartpqi'']" by simp
  have o: "dict_get [] ''only'' [] = []" by (simp add: dict_get_def)
  have l: "\<And>a s. listdir_sys_module (smartpqi_env a s) = Inr [''smartpqi'']"
    by (simp add: smartpqi_env_def)
  have t: "\<And>a s. find_arcconf (smartpqi_env a s) = a \<and> find_sacli (smartpqi_env a s) = s
                 \<and> set_iter (smartpqi_env a s) = remdups"
    by (simp add: smartpqi_env_def quiet_env_def)
  from smartpqi_arbitration [OF k o l, of True True]
       smartpqi_arbitration [OF k o l, of True False]
       smartpqi_arbitration [OF k o l, of False True]
       smartpqi_arbitration [OF k o l, of False False] k o
  show ?thesis by (simp add: t KMOD_PLUGIN_MAP_def)
qed

subsection \<open>The error boundary\<close>

text \<open>What the decorator guarantees for every method that carries it.\<close>

lemma decorated_raises_LsmError_only:
  "fst (handle_errors method w) = Inl e \<Longrightarrow> \<exists>code msg. e = LsmError code msg"
  by (auto simp: handle_errors_def split: prod.splits sum.splits exn.splits)

text \<open>
  Claim C2. The claim holds for the operations that carry \<^verbatim>\<open>_handle_errors\<close> and fails
  for \<^verbatim>\<open>export_auth\<close>, the one public operation defined without it. When the NFS
  connection raises an exception that is not an \<^verbatim>\<open>LsmError\<close>, \<^verbatim>\<open>export_auth\<close> lets it reach
  the caller as it is, while \<^verbatim>\<open>export_remove\<close> on the same backend turns the same
  exception into \<^verbatim>\<open>PLUGIN_BUG\<close>.
\<close>

theorem export_auth_leaks_exception:
  "export_auth broken_nfs_env 0 (nfs_router, [])
     = (Inl (Exception ''connection lost''), (nfs_router, [ConnExportAuth 1 0]))
   \<and> export_remove broken_nfs_env (vol ''e1'' ''nfs-host'') 0 (nfs_router, [])
     = (Inl (LsmError PLUGIN_BUG ''Got unexpected error connection lost''),
        (nfs_router, [ConnExportRemove 1 (vol ''e1'' ''nfs-host'') 0]))"
  by (simp add: export_auth_def export_remove_def handle_errors_def nfs_router_def
        broken_nfs_env_def quiet_env_def init_def)

subsection \<open>Timeout\<close>

lemma time_out_loop_aborts:
  "i < length cs
     \<Longrightarrow> \<forall>j<i. \<not> isl (time_out_replies env ms flags cs h ! j)
     \<Longrightarrow> time_out_replies env ms flags cs h ! i = Inl e
     \<Longrightarrow> time_out_loop env ms flags cs h
         = (Inl e, h @ map (\<lambda>c. ConnTimeOutSet c ms flags) (take (Suc i) cs))"
proof (induction cs arbitrary: i h)
  case Nil
  then show ?case by simp
next
  case (Cons c cs)
  show ?case
  proof (cases i)
    case 0
    with Cons.prems show ?thesis by simp
  next
    case (Suc k)
    from Cons.prems(2) Suc have "\<not> isl (conn_time_out_set env h c ms flags)"
      by auto
    then obtain u where first: "conn_time_out_set env h c ms flags = Inr u"
      by (cases "conn_time_out_set env h c ms flags") auto
    from Cons.prems(1) Suc have k: "k < length cs"
      by simp
    from Cons.prems(2) Suc
    have before: "\<forall>j<k. \<not> isl (time_out_replies env ms flags cs
                                    (h @ [ConnTimeOutSet c ms flags]) ! j)"
      by auto
    from Cons.prems(3) Suc
    have at: "time_out_replies env ms flags cs (h @ [ConnTimeOutSet c ms flags]) ! k = Inl e"
      by simp
    from Cons.IH [OF k before at] first Suc show ?thesis
      by simp
  qed
qed

lemma time_out_set_failure_keeps_new_value:
  "time_out_set env ms flags w = (Inl e, w') \<Longrightarrow> tmo_ms (fst w') = ms"
proof -
  assume "time_out_set env ms flags w = (Inl e, w')"
  then have "snd (time_out_set env ms flags w) = w'"
    by simp
  then show "tmo_ms (fst w') = ms"
    by (auto simp: time_out_set_def handle_errors_world Let_def split: prod.splits)
qed

text \<open>
  Claim C10. \<^verbatim>\<open>time_out_set\<close> stores the new value before it calls any connection. When
  connection \<open>i\<close> of the set is the first to reject the new value with an \<^verbatim>\<open>LsmError\<close>, the
  call fails with that error, the connections after \<open>i\<close> are not called, and the router
  it leaves holds the new value: \<^verbatim>\<open>time_out_get\<close> on it returns the rejected value.
\<close>

theorem time_out_set_stores_first:
  fixes env :: "'r env"
  assumes "i < length (conns self)"
      and "\<forall>j<i. \<not> isl (time_out_replies env ms flags (conns self) h ! j)"
      and "time_out_replies env ms flags (conns self) h ! i = Inl (LsmError code msg)"
  shows "time_out_set env ms flags (self, h)
           = (Inl (LsmError code msg),
              (self\<lparr>tmo_ms := ms\<rparr>,
               h @ map (\<lambda>c. ConnTimeOutSet c ms flags) (take (Suc i) (conns self))))
       \<and> time_out_get env flags' (snd (time_out_set env ms flags (self, h)))
           = (Inr ms, snd (time_out_set env ms flags (self, h)))"
proof -
  from time_out_loop_aborts [OF assms]
  have a: "time_out_set env ms flags (self, h)
             = (Inl (LsmError code msg),
                (self\<lparr>tmo_ms := ms\<rparr>,
                 h @ map (\<lambda>c. ConnTimeOutSet c ms flags) (take (Suc i) (conns self))))"
    by (simp add: time_out_set_def handle_errors_def)
  then show ?thesis
    by (simp add: time_out_get_def handle_errors_def)
qed

theorem time_out_set_stores_first_witness:
  "time_out_get strict_timeout_env 0 (two_conns, []) = (Inr 3000, (two_conns, []))
   \<and> time_out_replies strict_timeout_env 10 0 (conns two_conns) []
       = [Inr (), Inl (LsmError INVALID_ARGUMENT ''timeout out of range'')]
   \<and> time_out_set strict_timeout_env 10 0 (two_conns, [])
       = (Inl (LsmError INVALID_ARGUMENT ''timeout out of range''),
          (two_conns\<lparr>tmo_ms := 10\<rparr>, [ConnTimeOutSet 1 10 0, ConnTimeOutSet 2 10 0]))
   \<and> time_out_get strict_timeout_env 0
        (two_conns\<lparr>tmo_ms := 10\<rparr>, [ConnTimeOutSet 1 10 0, ConnTimeOutSet 2 10 0])
       = (Inr 10, (two_conns\<lparr>tmo_ms := 10\<rparr>, [ConnTimeOutSet 1 10 0, ConnTimeOutSet 2 10 0]))"
proof -
  have g: "time_out_get strict_timeout_env 0 (two_conns, []) = (Inr 3000, (two_conns, []))"
    by (simp add: time_out_get_def handle_errors_def two_conns_def init_def)
  have cs: "conns two_conns = [1, 2]"
    by (simp add: two_conns_def)
  have r: "time_out_replies strict_timeout_env 10 0 (conns two_conns) []
             = [Inr (), Inl (LsmError INVALID_ARGUMENT ''timeout out of range'')]"
    by (simp add: cs strict_timeout_env_def)
  have i: "1 < length (conns two_conns)"
    by (simp add: cs)
  have b: "\<forall>j<1. \<not> isl (time_out_replies strict_timeout_env 10 0 (conns two_conns) [] ! j)"
    by (simp add: r)
  have f: "time_out_replies strict_timeout_env 10 0 (conns two_conns) [] ! 1
             = Inl (LsmError INVALID_ARGUMENT ''timeout out of range'')"
    by (simp add: r)
  note t = time_out_set_stores_first [OF i b f, of 0]
  from conjunct1 [OF t]
  have s: "time_out_set strict_timeout_env 10 0 (two_conns, [])
             = (Inl (LsmError INVALID_ARGUMENT ''timeout out of range''),
                (two_conns\<lparr>tmo_ms := 10\<rparr>, [ConnTimeOutSet 1 10 0, ConnTimeOutSet 2 10 0]))"
    by (simp add: cs)
  from conjunct2 [OF t]
  have a: "time_out_get strict_timeout_env 0
             (two_conns\<lparr>tmo_ms := 10\<rparr>, [ConnTimeOutSet 1 10 0, ConnTimeOutSet 2 10 0])
           = (Inr 10, (two_conns\<lparr>tmo_ms := 10\<rparr>,
                       [ConnTimeOutSet 1 10 0, ConnTimeOutSet 2 10 0]))"
    unfolding s by simp
  from g r s a show ?thesis by simp
qed

subsection \<open>Shutdown\<close>

lemma unregister_loop_extends:
  "\<exists>t. snd (unregister_loop env cs h) = h @ t"
proof (induction cs arbitrary: h)
  case Nil
  then show ?case by simp
next
  case (Cons c cs)
  show ?case
  proof (cases "conn_plugin_unregister env h c")
    case (Inl e)
    then show ?thesis by simp
  next
    case (Inr u)
    from Cons.IH [of "h @ [ConnPluginUnregister c]"]
    obtain t where "snd (unregister_loop env cs (h @ [ConnPluginUnregister c]))
                      = (h @ [ConnPluginUnregister c]) @ t" ..
    with Inr show ?thesis by simp
  qed
qed

lemma unregister_loop_first:
  "cs \<noteq> [] \<Longrightarrow>
     take (Suc (length h)) (snd (unregister_loop env cs h)) = h @ [ConnPluginUnregister (hd cs)]"
proof (cases cs)
  case Nil
  assume "cs \<noteq> []"
  with Nil show ?thesis by simp
next
  case (Cons c rest)
  show ?thesis
  proof (cases "conn_plugin_unregister env h c")
    case (Inl e)
    with Cons show ?thesis by simp
  next
    case (Inr u)
    from unregister_loop_extends [of env rest "h @ [ConnPluginUnregister c]"]
    obtain t where "snd (unregister_loop env rest (h @ [ConnPluginUnregister c]))
                      = (h @ [ConnPluginUnregister c]) @ t" ..
    with Inr Cons show ?thesis by simp
  qed
qed

lemma unregister_loop_all:
  "fst (unregister_loop env cs h) = Inr u
     \<Longrightarrow> snd (unregister_loop env cs h) = h @ map ConnPluginUnregister cs"
proof (induction cs arbitrary: h)
  case Nil
  then show ?case by simp
next
  case (Cons c cs)
  then show ?case
    by (cases "conn_plugin_unregister env h c") auto
qed

lemma plugin_unregister_log:
  "snd (snd (plugin_unregister env flags (self, h))) = snd (unregister_loop env (conns self) h)"
  by (simp add: plugin_unregister_def handle_errors_world split: prod.splits sum.splits)

lemma plugin_unregister_ok:
  "fst (plugin_unregister env flags (self, h)) = Inr u
     \<Longrightarrow> fst (unregister_loop env (conns self) h) = Inr ()"
  by (auto simp: plugin_unregister_def handle_errors_def split: prod.splits sum.splits exn.splits)

lemma plugin_unregister_fields:
  "fst (snd (plugin_unregister env flags (self, h))) = self
   \<or> fst (snd (plugin_unregister env flags (self, h))) = self\<lparr>unregistered := True\<rparr>"
  by (simp add: plugin_unregister_def handle_errors_world split: prod.splits sum.splits)

text \<open>
  Claim C3, as the code has it. On a router that is already unregistered, a second
  \<^verbatim>\<open>plugin_unregister\<close> leaves the fields of the router as they were, but it is not a
  no-op: when the connection set is not empty the log grows, first by a teardown call on
  the first connection, and when the call returns normally by one teardown call on every
  connection of the set, in order. Only the finalizer \<^verbatim>\<open>__del__\<close> reads the flag, and
  does nothing on such a router.
\<close>

theorem second_unregister_tears_down_again:
  fixes env :: "'r env"
  assumes "unregistered self"
  shows "fst (snd (plugin_unregister env flags (self, h))) = self
       \<and> (conns self \<noteq> [] \<longrightarrow>
            take (Suc (length h)) (snd (snd (plugin_unregister env flags (self, h))))
              = h @ [ConnPluginUnregister (hd (conns self))])
       \<and> (fst (plugin_unregister env flags (self, h)) = Inr () \<longrightarrow>
            snd (snd (plugin_unregister env flags (self, h)))
              = h @ map ConnPluginUnregister (conns self))
       \<and> del env (self, h) = (self, h)"
proof -
  have same: "self\<lparr>unregistered := True\<rparr> = self"
    using assms by simp
  have a: "fst (snd (plugin_unregister env flags (self, h))) = self"
    using plugin_unregister_fields [of env flags self h] same by auto
  have b: "conns self \<noteq> [] \<longrightarrow>
             take (Suc (length h)) (snd (snd (plugin_unregister env flags (self, h))))
               = h @ [ConnPluginUnregister (hd (conns self))]"
    by (simp add: plugin_unregister_log unregister_loop_first)
  have c: "fst (plugin_unregister env flags (self, h)) = Inr () \<longrightarrow>
             snd (snd (plugin_unregister env flags (self, h)))
               = h @ map ConnPluginUnregister (conns self)"
    using plugin_unregister_ok [of env flags self h "()"]
          unregister_loop_all [of env "conns self" h "()"]
    by (simp add: plugin_unregister_log)
  have d: "del env (self, h) = (self, h)"
    using assms by (simp add: del_def)
  from a b c d show ?thesis by blast
qed

theorem second_unregister_tears_down_again_witness:
  "unregistered (one_conn\<lparr>unregistered := True\<rparr>)
   \<and> conns (one_conn\<lparr>unregistered := True\<rparr>) \<noteq> []
   \<and> plugin_unregister quiet_env 0 (one_conn\<lparr>unregistered := True\<rparr>, [ConnPluginUnregister 1])
       = (Inr (), (one_conn\<lparr>unregistered := True\<rparr>,
                   [ConnPluginUnregister 1, ConnPluginUnregister 1]))
   \<and> del quiet_env (one_conn\<lparr>unregistered := True\<rparr>, [ConnPluginUnregister 1])
       = (one_conn\<lparr>unregistered := True\<rparr>, [ConnPluginUnregister 1])"
proof -
  have u: "unregistered (one_conn\<lparr>unregistered := True\<rparr>)" by simp
  have n: "conns (one_conn\<lparr>unregistered := True\<rparr>) \<noteq> []"
    by (simp add: one_conn_def)
  have r: "fst (plugin_unregister quiet_env 0
                  (one_conn\<lparr>unregistered := True\<rparr>, [ConnPluginUnregister 1])) = Inr ()"
    by (simp add: plugin_unregister_def handle_errors_def one_conn_def quiet_env_def)
  have cs: "conns (one_conn\<lparr>unregistered := True\<rparr>) = [1]"
    by (simp add: one_conn_def)
  from second_unregister_tears_down_again [OF u, of quiet_env 0 "[ConnPluginUnregister 1]"] r cs
  have "plugin_unregister quiet_env 0 (one_conn\<lparr>unregistered := True\<rparr>, [ConnPluginUnregister 1])
          = (Inr (), (one_conn\<lparr>unregistered := True\<rparr>,
                      [ConnPluginUnregister 1, ConnPluginUnregister 1]))"
    by (simp add: prod_eq_iff)
  moreover
  from second_unregister_tears_down_again [OF u, of quiet_env 0 "[ConnPluginUnregister 1]"]
  have "del quiet_env (one_conn\<lparr>unregistered := True\<rparr>, [ConnPluginUnregister 1])
          = (one_conn\<lparr>unregistered := True\<rparr>, [ConnPluginUnregister 1])"
    by simp
  ultimately show ?thesis using u n by simp
qed

text \<open>
  The claim as the spec states it fails: two calls in a row on a router with one
  connection. The first call tears connection 1 down and sets the flag; the second call
  returns normally too, and the log shows a second teardown of connection 1, so the state
  a test double observes is not the state after the first call.
\<close>

theorem unregister_twice_counterexample:
  "plugin_unregister quiet_env 0 (one_conn, [])
     = (Inr (), (one_conn\<lparr>unregistered := True\<rparr>, [ConnPluginUnregister 1]))
   \<and> plugin_unregister quiet_env 0 (one_conn\<lparr>unregistered := True\<rparr>, [ConnPluginUnregister 1])
     = (Inr (), (one_conn\<lparr>unregistered := True\<rparr>,
                 [ConnPluginUnregister 1, ConnPluginUnregister 1]))
   \<and> snd (plugin_unregister quiet_env 0
            (one_conn\<lparr>unregistered := True\<rparr>, [ConnPluginUnregister 1]))
     \<noteq> (one_conn\<lparr>unregistered := True\<rparr>, [ConnPluginUnregister 1])"
  by (simp add: plugin_unregister_def handle_errors_def one_conn_def quiet_env_def)

subsection \<open>Fan-out queries\<close>

lemma tolerated_simps [simp]:
  "tolerated (Inr x)"
  "tolerated (Inl (LsmError code msg)) = (code = NO_SUPPORT)"
  "\<not> tolerated (Inl (Exception m))"
  by (simp_all add: tolerated_def)

lemma contributes_simps [simp]:
  "contributes (Inr xs) = xs"
  "contributes (Inl e) = []"
  by (simp_all add: contributes_def)

lemma length_query_replies [simp]:
  "length (query_replies env name flags cs h) = length cs"
  by (induction cs arbitrary: h) simp_all

lemma query_loop_all_tolerated:
  "\<forall>r \<in> set (query_replies env name flags cs h). tolerated r
     \<Longrightarrow> query_loop env name flags cs acc h
         = (Inr (acc @ concat (map contributes (query_replies env name flags cs h))),
            h @ map (\<lambda>c. ConnQuery c name flags) cs)"
proof (induction cs arbitrary: acc h)
  case Nil
  then show ?case by simp
next
  case (Cons c cs)
  from Cons.prems
  have rest: "\<forall>r \<in> set (query_replies env name flags cs (h @ [ConnQuery c name flags])).
                tolerated r"
    and first: "tolerated (conn_query env h c name flags)"
    by simp_all
  note IH = Cons.IH [OF rest]
  show ?case
  proof (cases "conn_query env h c name flags")
    case (Inr objs)
    then show ?thesis by (simp add: IH)
  next
    case (Inl e)
    with first obtain msg where "e = LsmError NO_SUPPORT msg"
      by (cases e) auto
    with Inl show ?thesis by (simp add: IH)
  qed
qed

lemma query_loop_aborts:
  "i < length cs
     \<Longrightarrow> \<forall>j<i. tolerated (query_replies env name flags cs h ! j)
     \<Longrightarrow> query_replies env name flags cs h ! i = Inl e
     \<Longrightarrow> \<not> tolerated (Inl e :: exn + lsm_obj list)
     \<Longrightarrow> query_loop env name flags cs acc h
         = (Inl e, h @ map (\<lambda>c. ConnQuery c name flags) (take (Suc i) cs))"
proof (induction cs arbitrary: i acc h)
  case Nil
  then show ?case by simp
next
  case (Cons c cs)
  show ?case
  proof (cases i)
    case 0
    with Cons.prems have r: "conn_query env h c name flags = Inl e"
      by simp
    from Cons.prems(4) show ?thesis
      by (cases e) (simp_all add: r 0)
  next
    case (Suc k)
    from Cons.prems(2) Suc have first: "tolerated (conn_query env h c name flags)"
      by auto
    from Cons.prems(1) Suc have k: "k < length cs"
      by simp
    from Cons.prems(2) Suc
    have before: "\<forall>j<k. tolerated (query_replies env name flags cs
                                       (h @ [ConnQuery c name flags]) ! j)"
      by auto
    from Cons.prems(3) Suc
    have at: "query_replies env name flags cs (h @ [ConnQuery c name flags]) ! k = Inl e"
      by simp
    note IH = Cons.IH [OF k before at Cons.prems(4)]
    show ?thesis
    proof (cases "conn_query env h c name flags")
      case (Inr objs)
      then show ?thesis by (simp add: IH Suc)
    next
      case (Inl e')
      with first obtain msg where "e' = LsmError NO_SUPPORT msg"
        by (cases e') auto
      with Inl show ?thesis by (simp add: IH Suc)
    qed
  qed
qed

text \<open>
  Claim C6. For each of the five collection queries with a search key other than
  \<^verbatim>\<open>system_id\<close>, and the answers the connections of the set give when asked one after the
  other in the order of the set:
  if every answer is a result or a \<^verbatim>\<open>NO_SUPPORT\<close> error, every connection is asked, in
  order, and the result is the concatenation of the results, in that order, with the
  key and value filter applied, the \<^verbatim>\<open>NO_SUPPORT\<close> answers adding nothing;
  if the first answer that is neither is at connection \<open>i\<close>, the connections up to \<open>i\<close> are
  asked and no other, and the call fails with that error (an \<^verbatim>\<open>LsmError\<close> as it is, another
  exception as the decorator wraps it);
  and the filter leaves a list as it is when the search key is unset.
\<close>

theorem fan_out_query:
  fixes env :: "'r env"
  assumes "(q, name) \<in> set (collection_queries env)"
      and "search_key \<noteq> Some ''system_id''"
  shows "((\<forall>r \<in> set (query_replies env name flags (conns self) h). tolerated r) \<longrightarrow>
            q search_key search_value flags (self, h)
              = (Inr (search_property
                        (concat (map contributes (query_replies env name flags (conns self) h)))
                        search_key search_value),
                 (self, h @ map (\<lambda>c. ConnQuery c name flags) (conns self))))
       \<and> (\<forall>i < length (conns self).
            (\<forall>j<i. tolerated (query_replies env name flags (conns self) h ! j)) \<longrightarrow>
              (\<forall>code msg.
                 query_replies env name flags (conns self) h ! i = Inl (LsmError code msg)
                 \<and> code \<noteq> NO_SUPPORT \<longrightarrow>
                 q search_key search_value flags (self, h)
                   = (Inl (LsmError code msg),
                      (self, h @ map (\<lambda>c. ConnQuery c name flags) (take (Suc i) (conns self)))))
              \<and> (\<forall>m.
                 query_replies env name flags (conns self) h ! i = Inl (Exception m) \<longrightarrow>
                 q search_key search_value flags (self, h)
                   = (Inl (LsmError PLUGIN_BUG (''Got unexpected error '' @ m)),
                      (self, h @ map (\<lambda>c. ConnQuery c name flags) (take (Suc i) (conns self))))))
       \<and> search_property objs None search_value = objs"
proof -
  have q: "q search_key search_value flags (self, h)
             = handle_errors (p_query env name search_key search_value flags) (self, h)"
    by (simp add: collection_queries_cases [OF assms(1)])
  have a: "(\<forall>r \<in> set (query_replies env name flags (conns self) h). tolerated r) \<longrightarrow>
            q search_key search_value flags (self, h)
              = (Inr (search_property
                        (concat (map contributes (query_replies env name flags (conns self) h)))
                        search_key search_value),
                 (self, h @ map (\<lambda>c. ConnQuery c name flags) (conns self)))"
    using assms(2)
    by (auto simp: q handle_errors_def p_query_def query_loop_all_tolerated)
  have b: "\<forall>i < length (conns self).
            (\<forall>j<i. tolerated (query_replies env name flags (conns self) h ! j)) \<longrightarrow>
              (\<forall>code msg.
                 query_replies env name flags (conns self) h ! i = Inl (LsmError code msg)
                 \<and> code \<noteq> NO_SUPPORT \<longrightarrow>
                 q search_key search_value flags (self, h)
                   = (Inl (LsmError code msg),
                      (self, h @ map (\<lambda>c. ConnQuery c name flags) (take (Suc i) (conns self)))))
              \<and> (\<forall>m.
                 query_replies env name flags (conns self) h ! i = Inl (Exception m) \<longrightarrow>
                 q search_key search_value flags (self, h)
                   = (Inl (LsmError PLUGIN_BUG (''Got unexpected error '' @ m)),
                      (self, h @ map (\<lambda>c. ConnQuery c name flags) (take (Suc i) (conns self)))))"
  proof (intro allI impI conjI)
    fix i code msg
    assume i: "i < length (conns self)"
      and before: "\<forall>j<i. tolerated (query_replies env name flags (conns self) h ! j)"
      and at: "query_replies env name flags (conns self) h ! i = Inl (LsmError code msg)
               \<and> code \<noteq> NO_SUPPORT"
    from at have nt: "\<not> tolerated (Inl (LsmError code msg) :: exn + lsm_obj list)"
      by simp
    from query_loop_aborts [OF i before conjunct1 [OF at] nt, of "[]"] assms(2)
    show "q search_key search_value flags (self, h)
            = (Inl (LsmError code msg),
               (self, h @ map (\<lambda>c. ConnQuery c name flags) (take (Suc i) (conns self))))"
      by (simp add: q handle_errors_def p_query_def)
  next
    fix i m
    assume i: "i < length (conns self)"
      and before: "\<forall>j<i. tolerated (query_replies env name flags (conns self) h ! j)"
      and at: "query_replies env name flags (conns self) h ! i = Inl (Exception m)"
    have nt: "\<not> tolerated (Inl (Exception m) :: exn + lsm_obj list)"
      by simp
    from query_loop_aborts [OF i before at nt, of "[]"] assms(2)
    show "q search_key search_value flags (self, h)
            = (Inl (LsmError PLUGIN_BUG (''Got unexpected error '' @ m)),
               (self, h @ map (\<lambda>c. ConnQuery c name flags) (take (Suc i) (conns self))))"
      by (simp add: q handle_errors_def p_query_def)
  qed
  have c: "search_property objs None search_value = objs"
    by (simp add: search_property_def)
  from a b c show ?thesis by blast
qed
theorem fan_out_query_witness:
  "(volumes no_support_env, ''volumes'') \<in> set (collection_queries no_support_env)
   \<and> (volumes failing_env, ''volumes'') \<in> set (collection_queries failing_env)
   \<and> query_replies no_support_env ''volumes'' 0 (conns three_conns) []
       = [Inr [vol ''v1'' ''sysA'', vol ''v2'' ''sysA''],
          Inl (LsmError NO_SUPPORT ''Not supported''),
          Inr [vol ''v3'' ''sysC'']]
   \<and> volumes no_support_env None None 0 (three_conns, [])
       = (Inr [vol ''v1'' ''sysA'', vol ''v2'' ''sysA'', vol ''v3'' ''sysC''],
          (three_conns, [ConnQuery 1 ''volumes'' 0, ConnQuery 2 ''volumes'' 0,
                         ConnQuery 3 ''volumes'' 0]))
   \<and> volumes no_support_env (Some ''id'') (Some ''v3'') 0 (three_conns, [])
       = (Inr [vol ''v3'' ''sysC''],
          (three_conns, [ConnQuery 1 ''volumes'' 0, ConnQuery 2 ''volumes'' 0,
                         ConnQuery 3 ''volumes'' 0]))
   \<and> query_replies failing_env ''volumes'' 0 (conns three_conns) []
       = [Inr [vol ''v1'' ''sysA'', vol ''v2'' ''sysA''],
          Inl (LsmError (OTHER_ERROR 1) ''Library bug''),
          Inr [vol ''v3'' ''sysC'']]
   \<and> volumes failing_env None None 0 (three_conns, [])
       = (Inl (LsmError (OTHER_ERROR 1) ''Library bug''),
          (three_conns, [ConnQuery 1 ''volumes'' 0, ConnQuery 2 ''volumes'' 0]))"
proof -
  have m1: "(volumes no_support_env, ''volumes'') \<in> set (collection_queries no_support_env)"
    by (simp add: collection_queries_def)
  have m2: "(volumes failing_env, ''volumes'') \<in> set (collection_queries failing_env)"
    by (simp add: collection_queries_def)
  have k1: "(None :: string option) \<noteq> Some ''system_id''" by simp
  have k2: "Some ''id'' \<noteq> Some ''system_id''" by simp
  have cs: "conns three_conns = [1, 2, 3]"
    by (simp add: three_conns_def)
  have r1: "query_replies no_support_env ''volumes'' 0 (conns three_conns) []
              = [Inr [vol ''v1'' ''sysA'', vol ''v2'' ''sysA''],
                 Inl (LsmError NO_SUPPORT ''Not supported''),
                 Inr [vol ''v3'' ''sysC'']]"
    by (simp add: cs no_support_env_def)
  have r2: "query_replies failing_env ''volumes'' 0 (conns three_conns) []
              = [Inr [vol ''v1'' ''sysA'', vol ''v2'' ''sysA''],
                 Inl (LsmError (OTHER_ERROR 1) ''Library bug''),
                 Inr [vol ''v3'' ''sysC'']]"
    by (simp add: cs failing_env_def)
  from conjunct1 [OF fan_out_query [OF m1 k1, of 0 three_conns "[]" None]]
  have a: "volumes no_support_env None None 0 (three_conns, [])
             = (Inr [vol ''v1'' ''sysA'', vol ''v2'' ''sysA'', vol ''v3'' ''sysC''],
                (three_conns, [ConnQuery 1 ''volumes'' 0, ConnQuery 2 ''volumes'' 0,
                               ConnQuery 3 ''volumes'' 0]))"
    by (simp add: r1) (simp add: cs search_property_def)
  from conjunct1 [OF fan_out_query [OF m1 k2, of 0 three_conns "[]" "Some ''v3''"]]
  have b: "volumes no_support_env (Some ''id'') (Some ''v3'') 0 (three_conns, [])
             = (Inr [vol ''v3'' ''sysC''],
                (three_conns, [ConnQuery 1 ''volumes'' 0, ConnQuery 2 ''volumes'' 0,
                               ConnQuery 3 ''volumes'' 0]))"
    by (simp add: r1) (simp add: cs search_property_def getattr_def vol_def)
  have i: "1 < length (conns three_conns)"
    by (simp add: cs)
  from conjunct1 [OF conjunct2 [OF fan_out_query [OF m2 k1, of 0 three_conns "[]" None]],
                  rule_format, OF i, THEN conjunct1, rule_format,
                  of "OTHER_ERROR 1" "''Library bug''"]
  have c: "volumes failing_env None None 0 (three_conns, [])
             = (Inl (LsmError (OTHER_ERROR 1) ''Library bug''),
                (three_conns, [ConnQuery 1 ''volumes'' 0, ConnQuery 2 ''volumes'' 0]))"
    by (simp add: r2) (simp add: cs)
  from m1 m2 r1 r2 a b c show ?thesis by simp
qed

subsection \<open>The list of systems and the routing table\<close>

lemma length_systems_replies [simp]: "length (systems_replies env cs h) = length cs"
  by (induction cs arbitrary: h) simp_all

lemma bind_conn_syss [simp]: "syss (bind_conn c ss self) = syss self @ ss"
  by (induction ss arbitrary: self) simp_all

lemma bind_conn_conns [simp]: "conns (bind_conn c ss self) = conns self"
  by (induction ss arbitrary: self) simp_all

lemma bind_conn_map:
  "map_of (sys_con_map (bind_conn c ss self))
     = map_of (sys_con_map self) ++ map_of (rev (map (\<lambda>sys. (sys_id sys, c)) ss))"
  by (induction ss arbitrary: self) (simp_all add: AList.update_conv')

lemma bind_conn_empty:
  "sys_con_map (bind_conn c ss self) = [] \<longleftrightarrow> sys_con_map self = [] \<and> ss = []"
  by (induction ss arbitrary: self) simp_all

lemma bind_systems_result:
  "bind_systems env cs (self, h) = (Inr u, (self', h'))
     \<Longrightarrow> (\<forall>r \<in> set (systems_replies env cs h). \<not> isl r)
         \<and> h' = h @ map ConnSystems cs
         \<and> conns self' = conns self
         \<and> syss self' = syss self @ concat (map contributes (systems_replies env cs h))
         \<and> map_of (sys_con_map self')
             = map_of (sys_con_map self)
               ++ map_of (rev (reported_bindings cs (systems_replies env cs h)))
         \<and> (sys_con_map self' = [] \<longleftrightarrow>
              sys_con_map self = []
              \<and> concat (map contributes (systems_replies env cs h)) = [])"
proof (induction cs arbitrary: self h)
  case Nil
  then show ?case by simp
next
  case (Cons c cs)
  show ?case
  proof (cases "conn_systems env h c")
    case (Inl e)
    with Cons.prems show ?thesis by simp
  next
    case (Inr ss)
    with Cons.prems
    have "bind_systems env cs (bind_conn c ss self, h @ [ConnSystems c]) = (Inr u, (self', h'))"
      by simp
    from Cons.IH [OF this] Inr show ?thesis
      by (simp add: bind_conn_map bind_conn_empty)
  qed
qed

lemma open_conns_keeps:
  "open_conns env uri_vars ignore timeout flags ps (self, h) = (r, (self', h'))
     \<Longrightarrow> syss self' = syss self \<and> sys_con_map self' = sys_con_map self
         \<and> tmo_ms self' = tmo_ms self \<and> unregistered self' = unregistered self"
proof (induction ps arbitrary: self h)
  case Nil
  then show ?case by simp
next
  case (Cons p ps)
  show ?case
  proof (cases "Client env h (plugin_uri uri_vars p) timeout flags")
    case (Inr c)
    with Cons.prems Cons.IH show ?thesis by fastforce
  next
    case (Inl e)
    with Cons.prems Cons.IH show ?thesis
      by (cases e) (fastforce split: if_splits)+
  qed
qed

lemma plugin_register_ok:
  assumes "plugin_register env uri password timeout flags (self, h) = (Inr u, (self', h'))"
  shows "\<exists>self2 h2 uri_vars ignore requested r.
           open_conns env uri_vars ignore timeout flags requested
             (self\<lparr>tmo_ms := timeout\<rparr>, h) = (r, (self2, h2))
           \<and> bind_systems env (conns self2) (self2, h2) = (Inr (), (self', h'))
           \<and> sys_con_map self' \<noteq> []"
proof -
  from assms
  have b: "plugin_register_body env uri password timeout flags (self, h)
             = (Inr u, (self', h'))"
    by (auto simp: plugin_register_def handle_errors_def
             split: prod.splits sum.splits exn.splits)
  then show ?thesis
    unfolding plugin_register_body_def build_routing_def Let_def
    by (auto split: if_splits sum.splits prod.splits) blast
qed

text \<open>
  Claim C4, as the code has it. After a registration of a fresh router that succeeds,
  with \<open>h0\<close> the log when the routing table is built: every connection of the set has
  answered \<^verbatim>\<open>systems()\<close> once, in the order of the set; \<^verbatim>\<open>systems()\<close> of the router returns
  the concatenation of these answers, in that order, with nothing dropped and nothing
  added, also when two connections report the same identifier; and in the routing table
  an identifier belongs to the connection that reported it last.
\<close>

theorem systems_is_concatenation:
  fixes env :: "'r env"
  assumes "plugin_register env uri password timeout flags (init, h) = (Inr (), (self', h'))"
  shows "\<exists>h0. h' = h0 @ map ConnSystems (conns self')
            \<and> (\<forall>r \<in> set (systems_replies env (conns self') h0). \<not> isl r)
            \<and> systems env flags' (self', h')
                = (Inr (concat (map contributes (systems_replies env (conns self') h0))),
                   (self', h'))
            \<and> map_of (sys_con_map self')
                = map_of (rev (reported_bindings (conns self')
                                 (systems_replies env (conns self') h0)))"
proof -
  from plugin_register_ok [OF assms]
  obtain self2 h2 uri_vars ignore requested r where
    o: "open_conns env uri_vars ignore timeout flags requested
          (init\<lparr>tmo_ms := timeout\<rparr>, h) = (r, (self2, h2))"
    and b: "bind_systems env (conns self2) (self2, h2) = (Inr (), (self', h'))"
    by blast
  from open_conns_keeps [OF o]
  have e: "syss self2 = []" "sys_con_map self2 = []"
    by (simp_all add: init_def)
  from bind_systems_result [OF b] e
  have "h' = h2 @ map ConnSystems (conns self')
        \<and> (\<forall>r \<in> set (systems_replies env (conns self') h2). \<not> isl r)
        \<and> systems env flags' (self', h')
            = (Inr (concat (map contributes (systems_replies env (conns self') h2))),
               (self', h'))
        \<and> map_of (sys_con_map self')
            = map_of (rev (reported_bindings (conns self')
                             (systems_replies env (conns self') h2)))"
    by (simp add: systems_def handle_errors_def)
  then show ?thesis ..
qed
lemma dup_registration:
  "plugin_register dup_env ''local://'' None 3000 0 (init, []) = (Inr (), dup_registered)"
  by (simp add: plugin_register_def handle_errors_def plugin_register_body_def
        select_plugins_def probe_plugins_def KMOD_PLUGIN_MAP_def dict_get_def py_bool_def
        plugin_uri_def sub_uri_paras_def build_routing_def dup_env_def quiet_env_def
        init_def dup_registered_def dup_first_def dup_second_def Let_def)

theorem systems_is_concatenation_witness:
  "plugin_register dup_env ''local://'' None 3000 0 (init, []) = (Inr (), dup_registered)
   \<and> systems dup_env 0 dup_registered = (Inr [dup_first, dup_second], dup_registered)
   \<and> map_of (sys_con_map (fst dup_registered)) ''dup'' = Some 2"
proof -
  have reg: "plugin_register dup_env ''local://'' None 3000 0 (init, [])
               = (Inr (), (fst dup_registered, snd dup_registered))"
    by (simp add: dup_registration)
  from systems_is_concatenation [OF reg, of 0]
  obtain h0 where
    s: "systems dup_env 0 (fst dup_registered, snd dup_registered)
          = (Inr (concat (map contributes
                      (systems_replies dup_env (conns (fst dup_registered)) h0))),
             (fst dup_registered, snd dup_registered))"
    and m: "map_of (sys_con_map (fst dup_registered))
              = map_of (rev (reported_bindings (conns (fst dup_registered))
                               (systems_replies dup_env (conns (fst dup_registered)) h0)))"
    by blast
  have r: "systems_replies dup_env (conns (fst dup_registered)) h0
             = [Inr [dup_first], Inr [dup_second]]"
    by (simp add: dup_registered_def dup_env_def dup_first_def dup_second_def)
  from s r have a: "systems dup_env 0 dup_registered
                      = (Inr [dup_first, dup_second], dup_registered)"
    by simp
  from m r have b: "map_of (sys_con_map (fst dup_registered)) ''dup'' = Some 2"
    by (simp add: dup_registered_def dup_first_def dup_second_def)
  from dup_registration a b show ?thesis by simp
qed

text \<open>
  The claim as the spec states it fails where two connections report the same
  identifier: both entries are in the list \<^verbatim>\<open>systems()\<close> returns, the earlier one is not
  overwritten. The list with the later entry only is what the claim describes.
\<close>

theorem systems_collision_counterexample:
  "plugin_register dup_env ''local://'' None 3000 0 (init, []) = (Inr (), dup_registered)
   \<and> fst (systems dup_env 0 dup_registered) = Inr [dup_first, dup_second]
   \<and> sys_id dup_first = sys_id dup_second
   \<and> last_write_wins [dup_first, dup_second] = [dup_second]
   \<and> fst (systems dup_env 0 dup_registered) \<noteq> Inr (last_write_wins [dup_first, dup_second])"
  by (simp add: dup_registration)
     (simp add: systems_def handle_errors_def dup_registered_def dup_first_def dup_second_def)

subsection \<open>Opening the backends\<close>

lemma goes_on_simps [simp]:
  "goes_on ignore (Inr c)"
  "goes_on ignore (Inl (LsmError code msg)) = ignore"
  "\<not> goes_on ignore (Inl (Exception m))"
  by (simp_all add: goes_on_def)

lemma length_open_replies [simp]:
  "length (open_replies env uri_vars timeout flags ps h) = length ps"
  by (induction ps arbitrary: h) simp_all

lemma open_conns_goes_on:
  "\<forall>r \<in> set (open_replies env uri_vars timeout flags ps h). goes_on ignore r
     \<Longrightarrow> open_conns env uri_vars ignore timeout flags ps (self, h)
         = (Inr (),
            (self\<lparr>conns := conns self @ opened (open_replies env uri_vars timeout flags ps h),
                  nfs_conn := nfs_after (nfs_conn self) ps
                                (open_replies env uri_vars timeout flags ps h)\<rparr>,
             h @ map (\<lambda>p. ClientOpen (plugin_uri uri_vars p) timeout flags) ps))"
proof (induction ps arbitrary: self h)
  case Nil
  then show ?case by simp
next
  case (Cons p ps)
  from Cons.prems
  have rest: "\<forall>r \<in> set (open_replies env uri_vars timeout flags ps
                            (h @ [ClientOpen (plugin_uri uri_vars p) timeout flags])).
                goes_on ignore r"
    and first: "goes_on ignore (Client env h (plugin_uri uri_vars p) timeout flags)"
    by simp_all
  note IH = Cons.IH [OF rest]
  show ?case
  proof (cases "Client env h (plugin_uri uri_vars p) timeout flags")
    case (Inr c)
    then show ?thesis by (simp add: IH)
  next
    case (Inl e)
    with first obtain code msg where "e = LsmError code msg" and "ignore"
      by (cases e) auto
    with Inl IH show ?thesis by simp
  qed
qed

lemma open_conns_aborts:
  "i < length ps
     \<Longrightarrow> \<forall>j<i. goes_on ignore (open_replies env uri_vars timeout flags ps h ! j)
     \<Longrightarrow> open_replies env uri_vars timeout flags ps h ! i = Inl e
     \<Longrightarrow> \<not> goes_on ignore (Inl e)
     \<Longrightarrow> open_conns env uri_vars ignore timeout flags ps (self, h)
         = (Inl e,
            (self\<lparr>conns := conns self
                            @ opened (take i (open_replies env uri_vars timeout flags ps h)),
                  nfs_conn := nfs_after (nfs_conn self) (take i ps)
                                (take i (open_replies env uri_vars timeout flags ps h))\<rparr>,
             h @ map (\<lambda>p. ClientOpen (plugin_uri uri_vars p) timeout flags) (take (Suc i) ps)))"
proof (induction ps arbitrary: i self h)
  case Nil
  then show ?case by simp
next
  case (Cons p ps)
  show ?case
  proof (cases i)
    case 0
    with Cons.prems have r: "Client env h (plugin_uri uri_vars p) timeout flags = Inl e"
      by simp
    from Cons.prems(4) show ?thesis
      by (cases e) (simp_all add: r 0)
  next
    case (Suc k)
    from Cons.prems(2) Suc
    have first: "goes_on ignore (Client env h (plugin_uri uri_vars p) timeout flags)"
      by auto
    from Cons.prems(1) Suc have k: "k < length ps"
      by simp
    from Cons.prems(2) Suc
    have before: "\<forall>j<k. goes_on ignore
                    (open_replies env uri_vars timeout flags ps
                       (h @ [ClientOpen (plugin_uri uri_vars p) timeout flags]) ! j)"
      by auto
    from Cons.prems(3) Suc
    have at: "open_replies env uri_vars timeout flags ps
                (h @ [ClientOpen (plugin_uri uri_vars p) timeout flags]) ! k = Inl e"
      by simp
    note IH = Cons.IH [OF k before at Cons.prems(4)]
    show ?thesis
    proof (cases "Client env h (plugin_uri uri_vars p) timeout flags")
      case (Inr c)
      then show ?thesis by (simp add: IH Suc)
    next
      case (Inl e')
      with first obtain code msg where "e' = LsmError code msg" and "ignore"
        by (cases e') auto
      with Inl IH show ?thesis by (simp add: Suc)
    qed
  qed
qed

lemma bind_systems_all_answer:
  "\<forall>r \<in> set (systems_replies env cs h). \<not> isl r
     \<Longrightarrow> \<exists>self'. bind_systems env cs (self, h) = (Inr (), (self', h @ map ConnSystems cs))"
proof (induction cs arbitrary: self h)
  case Nil
  then show ?case by simp
next
  case (Cons c cs)
  from Cons.prems obtain ss where r: "conn_systems env h c = Inr ss"
    by (cases "conn_systems env h c") auto
  from Cons.prems
  have "\<forall>r \<in> set (systems_replies env cs (h @ [ConnSystems c])). \<not> isl r"
    by simp
  from Cons.IH [OF this, of "bind_conn c ss self"] r show ?case
    by simp
qed

lemma build_routing_succeeds_iff:
  "fst (build_routing env (self, h)) = Inr ()
     \<longleftrightarrow> (\<forall>r \<in> set (systems_replies env (conns self) h). \<not> isl r)
         \<and> (sys_con_map self \<noteq> []
            \<or> concat (map contributes (systems_replies env (conns self) h)) \<noteq> [])"
proof (cases "\<forall>r \<in> set (systems_replies env (conns self) h). \<not> isl r")
  case True
  from bind_systems_all_answer [OF True, of self]
  obtain self' where b: "bind_systems env (conns self) (self, h)
                           = (Inr (), (self', h @ map ConnSystems (conns self)))" ..
  from bind_systems_result [OF b] True b show ?thesis
    by (simp add: build_routing_def)
next
  case False
  have "fst (build_routing env (self, h)) \<noteq> Inr ()"
  proof
    assume ok: "fst (build_routing env (self, h)) = Inr ()"
    obtain r self' h' where b: "bind_systems env (conns self) (self, h) = (r, (self', h'))"
      by (metis prod.exhaust)
    with ok obtain u where "r = Inr u"
      by (cases r) (simp_all add: build_routing_def)
    with b bind_systems_result [of env "conns self" self h u self' h'] False
    show False by simp
  qed
  with False show ?thesis by simp
qed

lemma handle_errors_ok_iff: "fst (handle_errors method w) = Inr v \<longleftrightarrow> fst (method w) = Inr v"
  by (auto simp: handle_errors_def split: prod.splits sum.splits exn.splits)
text \<open>
  What Python makes of the option: \<^verbatim>\<open>bool\<close> of a string is false for the empty string
  only, so the flag is true when the option is absent (the default is the text
  \<^verbatim>\<open>false\<close>) and for every value that is not empty.
\<close>

lemma ignore_init_error_values:
  "py_bool (dict_get [] ''ignore_init_error'' ''false'')"
  "py_bool (dict_get [(''ignore_init_error'', ''false'')] ''ignore_init_error'' ''false'')"
  "py_bool (dict_get [(''ignore_init_error'', ''true'')] ''ignore_init_error'' ''false'')"
  "\<not> py_bool (dict_get [(''ignore_init_error'', [])] ''ignore_init_error'' ''false'')"
  by (simp_all add: py_bool_def dict_get_def)

text \<open>
  Claim C1, as the code has it. Take a registration by root whose connection string
  parses, with \<open>requested\<close> the backends selected, \<open>replies\<close> the answers of their
  \<^verbatim>\<open>Client\<close> constructors, and the open of backend \<open>i\<close> failing with an \<^verbatim>\<open>LsmError\<close>. The
  flag is the truth value of the \<^verbatim>\<open>ignore_init_error\<close> parameter.

  If the flag is false and the backends before \<open>i\<close> have opened, \<^verbatim>\<open>plugin_register\<close>
  fails with that error; no later backend is opened, and the connections opened before
  stay in the connection set: no teardown is called, the log holds the opens only.

  If the flag is true and no open raises anything but an \<^verbatim>\<open>LsmError\<close>, every backend is
  tried, the connection set gains exactly the connections that opened, in order, the
  failed ones absent, and the registration goes on to the routing table with them. It
  succeeds exactly when every connection of the set answers \<^verbatim>\<open>systems()\<close> and the routing
  table is not left empty.
\<close>

theorem open_failure_policy:
  fixes env :: "'r env"
  assumes root: "geteuid env = 0"
      and parse: "uri_parse env uri = Inr parsed"
      and vars: "uri_vars = (case parsed of None \<Rightarrow> [] | Some ps \<Rightarrow> ps)"
      and sel: "select_plugins env uri_vars = Inr requested"
      and reps: "replies = open_replies env uri_vars timeout flags requested h"
      and i: "i < length requested"
      and fails: "replies ! i = Inl (LsmError code msg)"
  shows "(\<not> py_bool (dict_get uri_vars ''ignore_init_error'' ''false'')
          \<and> (\<forall>j<i. \<not> isl (replies ! j)) \<longrightarrow>
            plugin_register env uri password timeout flags (self, h)
              = (Inl (LsmError code msg),
                 (self\<lparr>tmo_ms := timeout,
                       conns := conns self @ opened (take i replies),
                       nfs_conn := nfs_after (nfs_conn self) (take i requested) (take i replies)\<rparr>,
                  h @ map (\<lambda>p. ClientOpen (plugin_uri uri_vars p) timeout flags)
                        (take (Suc i) requested))))
       \<and> (py_bool (dict_get uri_vars ''ignore_init_error'' ''false'')
          \<and> (\<forall>r \<in> set replies. goes_on True r) \<longrightarrow>
            plugin_register env uri password timeout flags (self, h)
              = handle_errors (build_routing env)
                  (self\<lparr>tmo_ms := timeout,
                        conns := conns self @ opened replies,
                        nfs_conn := nfs_after (nfs_conn self) requested replies\<rparr>,
                   h @ map (\<lambda>p. ClientOpen (plugin_uri uri_vars p) timeout flags) requested)
            \<and> (fst (plugin_register env uri password timeout flags (self, h)) = Inr ()
                 \<longleftrightarrow>
                 (\<forall>r \<in> set (systems_replies env (conns self @ opened replies)
                               (h @ map (\<lambda>p. ClientOpen (plugin_uri uri_vars p) timeout flags)
                                      requested)).
                    \<not> isl r)
                 \<and> (sys_con_map self \<noteq> []
                    \<or> concat (map contributes
                         (systems_replies env (conns self @ opened replies)
                            (h @ map (\<lambda>p. ClientOpen (plugin_uri uri_vars p) timeout flags)
                                   requested))) \<noteq> [])))"
proof (intro conjI impI)
  assume a: "\<not> py_bool (dict_get uri_vars ''ignore_init_error'' ''false'')
             \<and> (\<forall>j<i. \<not> isl (replies ! j))"
  have before: "\<forall>j<i. goes_on False
                  (open_replies env uri_vars timeout flags requested h ! j)"
  proof (intro allI impI)
    fix j assume "j < i"
    with a have "\<not> isl (replies ! j)" by simp
    then obtain c where "replies ! j = Inr c"
      by (cases "replies ! j") auto
    then show "goes_on False (open_replies env uri_vars timeout flags requested h ! j)"
      by (simp add: reps)
  qed
  have at: "open_replies env uri_vars timeout flags requested h ! i = Inl (LsmError code msg)"
    using fails by (simp add: reps)
  have stop: "\<not> goes_on False (Inl (LsmError code msg))"
    by simp
  from open_conns_aborts [OF i before at stop, of "self\<lparr>tmo_ms := timeout\<rparr>"] a
  show "plugin_register env uri password timeout flags (self, h)
          = (Inl (LsmError code msg),
             (self\<lparr>tmo_ms := timeout,
                   conns := conns self @ opened (take i replies),
                   nfs_conn := nfs_after (nfs_conn self) (take i requested) (take i replies)\<rparr>,
              h @ map (\<lambda>p. ClientOpen (plugin_uri uri_vars p) timeout flags)
                    (take (Suc i) requested)))"
    by (simp add: plugin_register_def handle_errors_def plugin_register_body_def
          root parse vars [symmetric] sel reps [symmetric])
next
  assume b: "py_bool (dict_get uri_vars ''ignore_init_error'' ''false'')
             \<and> (\<forall>r \<in> set replies. goes_on True r)"
  then have all: "\<forall>r \<in> set (open_replies env uri_vars timeout flags requested h).
                    goes_on True r"
    by (simp add: reps)
  from open_conns_goes_on [OF all, of "self\<lparr>tmo_ms := timeout\<rparr>"] b
  have body: "plugin_register_body env uri password timeout flags (self, h)
                = build_routing env
                    (self\<lparr>tmo_ms := timeout,
                          conns := conns self @ opened replies,
                          nfs_conn := nfs_after (nfs_conn self) requested replies\<rparr>,
                     h @ map (\<lambda>p. ClientOpen (plugin_uri uri_vars p) timeout flags) requested)"
    by (simp add: plugin_register_body_def root parse vars [symmetric] sel reps [symmetric])
  show eq: "plugin_register env uri password timeout flags (self, h)
          = handle_errors (build_routing env)
              (self\<lparr>tmo_ms := timeout,
                    conns := conns self @ opened replies,
                    nfs_conn := nfs_after (nfs_conn self) requested replies\<rparr>,
               h @ map (\<lambda>p. ClientOpen (plugin_uri uri_vars p) timeout flags) requested)"
    by (simp add: plugin_register_def handle_errors_def body)
  show "fst (plugin_register env uri password timeout flags (self, h)) = Inr ()
          \<longleftrightarrow>
          (\<forall>r \<in> set (systems_replies env (conns self @ opened replies)
                        (h @ map (\<lambda>p. ClientOpen (plugin_uri uri_vars p) timeout flags)
                               requested)).
             \<not> isl r)
          \<and> (sys_con_map self \<noteq> []
             \<or> concat (map contributes
                  (systems_replies env (conns self @ opened replies)
                     (h @ map (\<lambda>p. ClientOpen (plugin_uri uri_vars p) timeout flags)
                            requested))) \<noteq> [])"
    unfolding eq handle_errors_ok_iff build_routing_succeeds_iff
    by simp
qed
theorem open_failure_policy_witness:
  "geteuid half_env = 0
   \<and> \<not> py_bool (dict_get [(''ignore_init_error'', [])] ''ignore_init_error'' ''false'')
   \<and> open_replies half_env [(''ignore_init_error'', [])] 3000 0 [''megaraid'', ''nfs''] []
       = [Inr 1, Inl (LsmError (OTHER_ERROR 2) ''nfs service is not running'')]
   \<and> plugin_register half_env ''local://?ignore_init_error='' None 3000 0 (init, [])
       = (Inl (LsmError (OTHER_ERROR 2) ''nfs service is not running''),
          (init\<lparr>conns := [1]\<rparr>,
           [ClientOpen ''megaraid://'' 3000 0, ClientOpen ''nfs://'' 3000 0]))
   \<and> py_bool (dict_get [(''ignore_init_error'', ''true'')] ''ignore_init_error'' ''false'')
   \<and> plugin_register half_env ''local://?ignore_init_error=true'' None 3000 0 (init, [])
       = (Inr (),
          (init\<lparr>conns := [1], syss := [\<lparr>sys_id = ''sysA'', sys_attrs = []\<rparr>],
                sys_con_map := [(''sysA'', 1)]\<rparr>,
           [ClientOpen ''megaraid://'' 3000 0, ClientOpen ''nfs://'' 3000 0, ConnSystems 1]))"
proof -
  have root: "geteuid half_env = 0"
    by (simp add: half_env_def quiet_env_def)
  have pa: "uri_parse half_env ''local://?ignore_init_error=''
              = Inr (Some [(''ignore_init_error'', [])])"
    by (simp add: half_env_def)
  have va: "[(''ignore_init_error'', [])]
              = (case Some [(''ignore_init_error'', [])] of None \<Rightarrow> [] | Some ps \<Rightarrow> ps)"
    by simp
  have sa: "select_plugins half_env [(''ignore_init_error'', [])] = Inr [''megaraid'', ''nfs'']"
    by (simp add: select_plugins_def probe_plugins_def KMOD_PLUGIN_MAP_def dict_get_def
          half_env_def quiet_env_def)
  have uris: "\<And>v. plugin_uri [(''ignore_init_error'', v)] ''megaraid'' = ''megaraid://''"
             "\<And>v. plugin_uri [(''ignore_init_error'', v)] ''nfs'' = ''nfs://''"
    by (simp_all add: plugin_uri_def sub_uri_paras_def startswith_def)
  have ra: "open_replies half_env [(''ignore_init_error'', [])] 3000 0 [''megaraid'', ''nfs''] []
              = [Inr 1, Inl (LsmError (OTHER_ERROR 2) ''nfs service is not running'')]"
    by (simp add: uris half_env_def)
  have i: "1 < length [''megaraid'', ''nfs'']"
    by simp
  have fa: "[Inr 1, Inl (LsmError (OTHER_ERROR 2) ''nfs service is not running'')] ! 1
              = (Inl (LsmError (OTHER_ERROR 2) ''nfs service is not running'') :: exn + conn)"
    by simp
  have fl: "\<not> py_bool (dict_get [(''ignore_init_error'', [])] ''ignore_init_error'' ''false'')"
    by (simp add: py_bool_def dict_get_def)
  from conjunct1 [OF open_failure_policy [OF root pa va sa ra [symmetric] i fa, of None init]] fl
  have a: "plugin_register half_env ''local://?ignore_init_error='' None 3000 0 (init, [])
             = (Inl (LsmError (OTHER_ERROR 2) ''nfs service is not running''),
                (init\<lparr>conns := [1]\<rparr>,
                 [ClientOpen ''megaraid://'' 3000 0, ClientOpen ''nfs://'' 3000 0]))"
    by (simp add: uris init_def)
  have pb: "uri_parse half_env ''local://?ignore_init_error=true''
              = Inr (Some [(''ignore_init_error'', ''true'')])"
    by (simp add: half_env_def)
  have vb: "[(''ignore_init_error'', ''true'')]
              = (case Some [(''ignore_init_error'', ''true'')] of None \<Rightarrow> [] | Some ps \<Rightarrow> ps)"
    by simp
  have sb: "select_plugins half_env [(''ignore_init_error'', ''true'')]
              = Inr [''megaraid'', ''nfs'']"
    by (simp add: select_plugins_def probe_plugins_def KMOD_PLUGIN_MAP_def dict_get_def
          half_env_def quiet_env_def)
  have rb: "open_replies half_env [(''ignore_init_error'', ''true'')] 3000 0
              [''megaraid'', ''nfs''] []
              = [Inr 1, Inl (LsmError (OTHER_ERROR 2) ''nfs service is not running'')]"
    by (simp add: uris half_env_def)
  have tl: "py_bool (dict_get [(''ignore_init_error'', ''true'')] ''ignore_init_error'' ''false'')"
    by (simp add: py_bool_def dict_get_def)
  from conjunct2 [OF open_failure_policy [OF root pb vb sb rb [symmetric] i fa, of None init]] tl
  have b: "plugin_register half_env ''local://?ignore_init_error=true'' None 3000 0 (init, [])
             = (Inr (),
                (init\<lparr>conns := [1], syss := [\<lparr>sys_id = ''sysA'', sys_attrs = []\<rparr>],
                      sys_con_map := [(''sysA'', 1)]\<rparr>,
                 [ClientOpen ''megaraid://'' 3000 0, ClientOpen ''nfs://'' 3000 0,
                  ConnSystems 1]))"
    by (simp add: uris init_def)
       (simp add: handle_errors_def build_routing_def half_env_def)
  from root fl ra a tl b show ?thesis by simp
qed

text \<open>
  The claim as the spec states it fails on both sides. With the flag false (the option
  given with an empty value), the MegaRAID backend opens, the NFS backend fails, and the
  registration aborts with connection 1 still in the connection set and no teardown in
  the log. With the option set to \<^verbatim>\<open>true\<close> and the NFS backend as the only one asked for,
  the failure is skipped and the registration still fails, with \<^verbatim>\<open>NO_SUPPORT\<close>, since no
  backend remains.
\<close>

theorem open_failure_counterexample:
  "plugin_register half_env ''local://?ignore_init_error='' None 3000 0 (init, [])
     = (Inl (LsmError (OTHER_ERROR 2) ''nfs service is not running''),
        (init\<lparr>conns := [1]\<rparr>,
         [ClientOpen ''megaraid://'' 3000 0, ClientOpen ''nfs://'' 3000 0]))
   \<and> conns (init\<lparr>conns := [1]\<rparr>) \<noteq> []
   \<and> plugin_register half_env ''local://?only=nfs&ignore_init_error=true'' None 3000 0 (init, [])
     = (Inl (LsmError NO_SUPPORT ''No supported systems found''),
        (init, [ClientOpen ''nfs://'' 3000 0]))"
  by (simp add: plugin_register_def handle_errors_def plugin_register_body_def
        select_plugins_def probe_plugins_def KMOD_PLUGIN_MAP_def supported_plugins_def
        dict_get_def py_bool_def plugin_uri_def sub_uri_paras_def startswith_def
        build_routing_def half_env_def quiet_env_def init_def Let_def)

end
